theory Spec2Isabelle
  imports Complex_Main "HOL-Library.Word"
begin

section \<open>Configuration resolution of the flowercare exporter\<close>

text \<open>
  A shallow embedding of \<^verbatim>\<open>internal/config/config.go\<close>: the sensor descriptors, their two
  sources (a directory of JSON records, repeated command-line tokens), the assembly of the
  \<^verbatim>\<open>Config\<close> value from defaults and flags, and the checks \<^verbatim>\<open>Parse\<close> runs on it.
\<close>

subsection \<open>Scalar types\<close>

text \<open>
  \<^verbatim>\<open>time.Duration\<close> is an \<^verbatim>\<open>int64\<close> count of nanoseconds: a 64-bit word, compared
  with the signed order \<open><s\<close>, whose arithmetic wraps as Go's does. Go's \<^verbatim>\<open>int\<close> is taken
  at 64 bits and \<^verbatim>\<open>logrus.Level\<close> is a \<^verbatim>\<open>uint32\<close>.
\<close>

type_synonym Duration = "64 word"
type_synonym go_int = "64 word"
type_synonym LogLevel = "32 word"

definition time_Millisecond :: Duration where "time_Millisecond = 1000000"
definition time_Second :: Duration where "time_Second = 1000000000"
definition time_Minute :: Duration where "time_Minute = 60000000000"

definition logrus_PanicLevel :: LogLevel where "logrus_PanicLevel = 0"
definition logrus_InfoLevel :: LogLevel where "logrus_InfoLevel = 4"

text \<open>
  A \<^verbatim>\<open>float64\<close> by the value it denotes: not a number, an infinity, or a finite value
  (every finite \<^verbatim>\<open>float64\<close> is a rational). \<open>float64_less\<close> is Go's \<^verbatim>\<open><\<close> on
  \<^verbatim>\<open>float64\<close>: false as soon as one side is NaN, the order of the values otherwise.
\<close>

datatype float64 = NaN | NegInf | PosInf | Finite rat

fun float64_less :: "float64 \<Rightarrow> float64 \<Rightarrow> bool" where
  "float64_less NaN y = False"
| "float64_less x NaN = False"
| "float64_less x NegInf = False"
| "float64_less NegInf y = True"
| "float64_less PosInf y = False"
| "float64_less (Finite a) PosInf = True"
| "float64_less (Finite a) (Finite b) = (a < b)"

subsection \<open>Errors\<close>

text \<open>
  Go's \<^verbatim>\<open>error\<close> values. \<open>errors_New m\<close> is \<^verbatim>\<open>errors.New(m)\<close>, the error whose message is
  \<open>m\<close>. Each \<^verbatim>\<open>fmt.Errorf\<close> of the source is a constructor that carries the formatted
  operands:
  \<^item> \<open>Errorf_can_not_parse_sensor e\<close>: \<^verbatim>\<open>"can not parse sensor: %s"\<close>;
  \<^item> \<open>Errorf_stale_duration d\<close>: \<^verbatim>\<open>"stale duration needs to be at least %d"\<close>;
  \<^item> \<open>Errorf_retry_time d\<close>: \<^verbatim>\<open>"retry time needs to be at least thirty seconds: %s"\<close>;
  \<^item> \<open>Errorf_maximum_retry_time lo hi\<close>:
    \<^verbatim>\<open>"maximum retry time needs to be larger or equal to minimum time: %s > %s"\<close>;
  \<^item> \<open>Errorf_retry_factor f\<close>: \<^verbatim>\<open>"retry factor needs to be equal or larger than one: %v"\<close>.

  The remaining constructors are the errors of the libraries the package calls:
  \<open>os_PathError op path\<close> from \<^verbatim>\<open>os.ReadDir\<close> and \<^verbatim>\<open>os.ReadFile\<close>,
  \<open>json_SyntaxError\<close> and \<open>json_UnmarshalTypeError\<close> from \<^verbatim>\<open>encoding/json\<close>,
  \<open>lib_ParseError text\<close> from the parsers of flag values (\<^verbatim>\<open>time.ParseDuration\<close>,
  \<^verbatim>\<open>strconv.ParseFloat\<close>, \<^verbatim>\<open>logrus.ParseLevel\<close>), and from \<^verbatim>\<open>pflag\<close> itself
  \<open>pflag_unknown_flag name\<close> and \<open>pflag_invalid_argument value name cause\<close>.
\<close>

datatype error =
    errors_New string
  | Errorf_can_not_parse_sensor error
  | Errorf_stale_duration Duration
  | Errorf_retry_time Duration
  | Errorf_maximum_retry_time Duration Duration
  | Errorf_retry_factor float64
  | os_PathError string string
  | json_SyntaxError
  | json_UnmarshalTypeError
  | lib_ParseError string
  | pflag_unknown_flag string
  | pflag_invalid_argument string string error

subsection \<open>Sensors\<close>

record Sensor =
  Name :: string
  MacAddress :: string
  MaxSoilMoist :: go_int
  MinSoilMoist :: go_int
  MaxSoilEc :: go_int
  MinSoilEc :: go_int
  MaxLightLux :: go_int
  MinLightLux :: go_int

text \<open>The zero value \<^verbatim>\<open>Sensor{}\<close>.\<close>

definition Sensor_zero :: Sensor where
  "Sensor_zero = \<lparr>Name = [], MacAddress = [], MaxSoilMoist = 0, MinSoilMoist = 0,
     MaxSoilEc = 0, MinSoilEc = 0, MaxLightLux = 0, MinLightLux = 0\<rparr>"

type_synonym SensorList = "Sensor list"

subsection \<open>Strings\<close>

text \<open>
  \<^verbatim>\<open>strings.SplitN(s, sep, 2)\<close> for a separator of one byte: the text before the first
  separator and the whole text after it, or \<open>s\<close> alone when it holds no separator.
\<close>

definition strings_SplitN_2 :: "string \<Rightarrow> char \<Rightarrow> string list" where
  "strings_SplitN_2 s sep =
     (if sep \<in> set s
      then [takeWhile (\<lambda>c. c \<noteq> sep) s, tl (dropWhile (\<lambda>c. c \<noteq> sep) s)]
      else [s])"

text \<open>
  \<^verbatim>\<open>strings.HasSuffix\<close>:
  \<^verbatim>\<open>len(s) >= len(suffix) && s[len(s)-len(suffix):] == suffix\<close>.
\<close>

definition strings_HasSuffix :: "string \<Rightarrow> string \<Rightarrow> bool" where
  "strings_HasSuffix s suffix =
     (length s \<ge> length suffix \<and> drop (length s - length suffix) s = suffix)"

subsection \<open>The command-line token of a sensor\<close>

text \<open>
  \<^verbatim>\<open>parseSensor\<close> (lines 119 to 135). \<open>tokens\<close> has one or two elements, so the reads
  \<open>tokens ! 0\<close> and \<open>tokens ! 1\<close> are in range on the branch that makes them.
\<close>

definition parseSensor :: "string \<Rightarrow> error + Sensor" where
  "parseSensor value =
     (if length value = 0 then Inl (errors_New ''empty string'')
      else
        let tokens = strings_SplitN_2 value CHR ''=''
        in if length tokens = 1
           then Inr (Sensor_zero\<lparr>MacAddress := tokens ! 0\<rparr>)
           else Inr (Sensor_zero\<lparr>Name := tokens ! 0, MacAddress := tokens ! 1\<rparr>))"

text \<open>
  \<^verbatim>\<open>(*SensorList).Set\<close> (lines 34 to 42): the receiver is passed in and, on success,
  returned with the parsed sensor appended; on failure the list is left as it was and
  only the error comes back.
\<close>

definition SensorList_Set :: "SensorList \<Rightarrow> string \<Rightarrow> error + SensorList" where
  "SensorList_Set s value =
     (case parseSensor value of
        Inl err \<Rightarrow> Inl (Errorf_can_not_parse_sensor err)
      | Inr sensor \<Rightarrow> Inr (s @ [sensor]))"

subsection \<open>Sensor records\<close>

text \<open>
  \<^verbatim>\<open>encoding/json\<close> is Go's standard library. \<^verbatim>\<open>json.Unmarshal\<close> first checks the
  whole input against the JSON grammar and fails with a syntax error, storing nothing,
  when it is malformed; only then does it store the value into the target. The bytes of
  a file are therefore represented by what that first pass finds: \<open>InvalidJSON\<close>, or the
  value the text denotes. A number is kept with the form of its literal: \<open>JInteger n\<close>
  is a literal of digits with an optional minus sign, \<open>JFraction text\<close> a literal with a
  fraction or an exponent. The members of an object are kept in the order of the text,
  duplicates included.
\<close>

datatype json =
    JNull
  | JBool bool
  | JInteger int
  | JFraction string
  | JString string
  | JArray "json list"
  | JObject "(string \<times> json) list"

datatype bytes = InvalidJSON | ValidJSON json

text \<open>
  The anonymous struct \<^verbatim>\<open>raw\<close> of \<^verbatim>\<open>UnmarshalJSON\<close> (lines 56 to 67) and its nested
  \<^verbatim>\<open>Parameter\<close> struct.
\<close>

record Parameter =
  Parameter_MaxSoilMoist :: go_int
  Parameter_MinSoilMoist :: go_int
  Parameter_MaxSoilEc :: go_int
  Parameter_MinSoilEc :: go_int
  Parameter_MaxLightLux :: go_int
  Parameter_MinLightLux :: go_int

record raw =
  raw_Name :: string
  raw_MacAddress :: string
  raw_Parameter :: Parameter

definition Parameter_zero :: Parameter where
  "Parameter_zero = \<lparr>Parameter_MaxSoilMoist = 0, Parameter_MinSoilMoist = 0,
     Parameter_MaxSoilEc = 0, Parameter_MinSoilEc = 0,
     Parameter_MaxLightLux = 0, Parameter_MinLightLux = 0\<rparr>"

definition raw_zero :: raw where
  "raw_zero = \<lparr>raw_Name = [], raw_MacAddress = [], raw_Parameter = Parameter_zero\<rparr>"

text \<open>
  The key of a member selects the field whose \<^verbatim>\<open>json\<close> tag equals it after case
  folding. The tags here are ASCII, so the folding that matters maps the ASCII letters to
  upper case, and the two letters outside ASCII that fold to an ASCII one: the long s
  (bytes C5 BF) to \<open>S\<close> and the Kelvin sign (bytes E2 84 AA) to \<open>K\<close>. Any other byte is
  kept, and a key that holds one matches no tag.
\<close>

definition toUpperASCII :: "char \<Rightarrow> char" where
  "toUpperASCII c =
     (if (97::nat) \<le> of_char c \<and> of_char c \<le> (122::nat)
      then char_of (of_char c - (32::nat)) else c)"

fun foldName :: "string \<Rightarrow> string" where
  "foldName (a # b # c # cs) =
     (if a = CHR 0xE2 \<and> b = CHR 0x84 \<and> c = CHR 0xAA then CHR ''K'' # foldName cs
      else if a = CHR 0xC5 \<and> b = CHR 0xBF then CHR ''S'' # foldName (c # cs)
      else toUpperASCII a # foldName (b # c # cs))"
| "foldName [a, b] =
     (if a = CHR 0xC5 \<and> b = CHR 0xBF then [CHR ''S'']
      else [toUpperASCII a, toUpperASCII b])"
| "foldName [a] = [toUpperASCII a]"
| "foldName [] = []"

text \<open>
  Storing one JSON value into a field. \<^verbatim>\<open>null\<close> leaves the field as it is. A
  \<^verbatim>\<open>string\<close> field takes a JSON string; an \<^verbatim>\<open>int\<close> field takes an integer literal
  that fits 64 bits. Anything else is an \<^verbatim>\<open>UnmarshalTypeError\<close>. The decoder goes on
  after such an error and reports the first one at the end; as \<^verbatim>\<open>UnmarshalJSON\<close> then
  throws \<^verbatim>\<open>raw\<close> away, the model stops at the first one.
\<close>

fun decode_string :: "json \<Rightarrow> string \<Rightarrow> error + string" where
  "decode_string JNull cur = Inr cur"
| "decode_string (JString s) cur = Inr s"
| "decode_string v cur = Inl json_UnmarshalTypeError"

fun decode_int :: "json \<Rightarrow> go_int \<Rightarrow> error + go_int" where
  "decode_int JNull cur = Inr cur"
| "decode_int (JInteger n) cur =
     (if - (2 ^ 63) \<le> n \<and> n < 2 ^ 63 then Inr (word_of_int n)
      else Inl json_UnmarshalTypeError)"
| "decode_int v cur = Inl json_UnmarshalTypeError"

text \<open>The members of an object, in order; a member whose key matches no field is skipped.\<close>

fun decode_members ::
  "(string \<Rightarrow> json \<Rightarrow> 'a \<Rightarrow> error + 'a) \<Rightarrow> (string \<times> json) list \<Rightarrow> 'a \<Rightarrow> error + 'a" where
  "decode_members field [] x = Inr x"
| "decode_members field ((key, v) # rest) x =
     (case field (foldName key) v x of
        Inl err \<Rightarrow> Inl err
      | Inr x' \<Rightarrow> decode_members field rest x')"

definition Parameter_field :: "string \<Rightarrow> json \<Rightarrow> Parameter \<Rightarrow> error + Parameter" where
  "Parameter_field key v p =
     (if key = ''MAX_SOIL_MOIST'' then
        map_sum id (\<lambda>n. p\<lparr>Parameter_MaxSoilMoist := n\<rparr>) (decode_int v (Parameter_MaxSoilMoist p))
      else if key = ''MIN_SOIL_MOIST'' then
        map_sum id (\<lambda>n. p\<lparr>Parameter_MinSoilMoist := n\<rparr>) (decode_int v (Parameter_MinSoilMoist p))
      else if key = ''MAX_SOIL_EC'' then
        map_sum id (\<lambda>n. p\<lparr>Parameter_MaxSoilEc := n\<rparr>) (decode_int v (Parameter_MaxSoilEc p))
      else if key = ''MIN_SOIL_EC'' then
        map_sum id (\<lambda>n. p\<lparr>Parameter_MinSoilEc := n\<rparr>) (decode_int v (Parameter_MinSoilEc p))
      else if key = ''MAX_LIGHT_LUX'' then
        map_sum id (\<lambda>n. p\<lparr>Parameter_MaxLightLux := n\<rparr>) (decode_int v (Parameter_MaxLightLux p))
      else if key = ''MIN_LIGHT_LUX'' then
        map_sum id (\<lambda>n. p\<lparr>Parameter_MinLightLux := n\<rparr>) (decode_int v (Parameter_MinLightLux p))
      else Inr p)"

fun decode_Parameter :: "json \<Rightarrow> Parameter \<Rightarrow> error + Parameter" where
  "decode_Parameter JNull p = Inr p"
| "decode_Parameter (JObject members) p = decode_members Parameter_field members p"
| "decode_Parameter v p = Inl json_UnmarshalTypeError"

definition raw_field :: "string \<Rightarrow> json \<Rightarrow> raw \<Rightarrow> error + raw" where
  "raw_field key v r =
     (if key = ''NAME'' then
        map_sum id (\<lambda>s. r\<lparr>raw_Name := s\<rparr>) (decode_string v (raw_Name r))
      else if key = ''SENSOR'' then
        map_sum id (\<lambda>s. r\<lparr>raw_MacAddress := s\<rparr>) (decode_string v (raw_MacAddress r))
      else if key = ''PARAMETER'' then
        map_sum id (\<lambda>p. r\<lparr>raw_Parameter := p\<rparr>) (decode_Parameter v (raw_Parameter r))
      else Inr r)"

text \<open>\<^verbatim>\<open>json.Unmarshal(data, &raw)\<close>.\<close>

fun json_Unmarshal :: "bytes \<Rightarrow> raw \<Rightarrow> error + raw" where
  "json_Unmarshal InvalidJSON r = Inl json_SyntaxError"
| "json_Unmarshal (ValidJSON JNull) r = Inr r"
| "json_Unmarshal (ValidJSON (JObject members)) r = decode_members raw_field members r"
| "json_Unmarshal (ValidJSON v) r = Inl json_UnmarshalTypeError"

text \<open>
  \<^verbatim>\<open>(*Sensor).UnmarshalJSON\<close> (lines 55 to 82): the receiver and the error it returns
  (\<open>None\<close> is \<^verbatim>\<open>nil\<close>). On an error the receiver is untouched.
\<close>

definition Sensor_UnmarshalJSON :: "Sensor \<Rightarrow> bytes \<Rightarrow> Sensor \<times> error option" where
  "Sensor_UnmarshalJSON s data =
     (case json_Unmarshal data raw_zero of
        Inl err \<Rightarrow> (s, Some err)
      | Inr r \<Rightarrow>
          (s\<lparr>Name := raw_Name r,
             MacAddress := raw_MacAddress r,
             MaxSoilMoist := Parameter_MaxSoilMoist (raw_Parameter r),
             MinSoilMoist := Parameter_MinSoilMoist (raw_Parameter r),
             MaxSoilEc := Parameter_MaxSoilEc (raw_Parameter r),
             MinSoilEc := Parameter_MinSoilEc (raw_Parameter r),
             MaxLightLux := Parameter_MaxLightLux (raw_Parameter r),
             MinLightLux := Parameter_MinLightLux (raw_Parameter r)\<rparr>, None))"

subsection \<open>The environment\<close>

text \<open>
  What the package reads from outside: the directory listing and the files
  (\<^verbatim>\<open>os.ReadDir\<close>, \<^verbatim>\<open>os.ReadFile\<close>), and the parsers of the typed flag values
  (\<^verbatim>\<open>time.ParseDuration\<close>, \<^verbatim>\<open>strconv.ParseFloat\<close>, \<^verbatim>\<open>logrus.ParseLevel\<close>).
\<close>

datatype DirEntry = DirEntry (DirEntry_Name: string) (DirEntry_IsDir: bool)

record env =
  os_ReadDir :: "string \<Rightarrow> error + DirEntry list"
  os_ReadFile :: "string \<Rightarrow> error + bytes"
  time_ParseDuration :: "string \<Rightarrow> error + Duration"
  strconv_ParseFloat :: "string \<Rightarrow> error + float64"
  logrus_ParseLevel :: "string \<Rightarrow> error + LogLevel"

text \<open>
  \<^verbatim>\<open>filepath.Join\<close> of a directory and a name. The result is only the key under which
  the environment is asked for the file, and a part of log messages; the clean-up of
  redundant separators and dots that \<^verbatim>\<open>Join\<close> also does is left out.
\<close>

definition filepath_Join :: "string \<Rightarrow> string \<Rightarrow> string" where
  "filepath_Join dir name = dir @ ''/'' @ name"

subsection \<open>Logging\<close>

text \<open>
  The calls made on the logger, in order, each with the operands of its format string:
  \<^verbatim>\<open>"sensordir: %s"\<close>, \<^verbatim>\<open>"sensor directory: %s"\<close>, \<^verbatim>\<open>"Entry: %s"\<close>, \<^verbatim>\<open>"opening: %s"\<close>,
  \<^verbatim>\<open>"Error reading file %s: %v"\<close>, \<^verbatim>\<open>"Error unmarshalling JSON from file %s: %v"\<close>,
  \<^verbatim>\<open>"Error reading sensors from directory: %s"\<close> and
  \<^verbatim>\<open>"Refresh durations below one minute are discouraged: %s"\<close>.
\<close>

datatype log_call =
    Printf_sensordir string
  | Infof_sensor_directory string
  | Printf_Entry DirEntry
  | Printf_opening string
  | Printf_Error_reading_file string error
  | Printf_Error_unmarshalling_JSON string error
  | Fatalf_Error_reading_sensors error
  | Warnf_Refresh_durations Duration

type_synonym log = "log_call list"

subsection \<open>The directory of sensor records\<close>

text \<open>
  The body of the loop of \<^verbatim>\<open>readSensorsFromDir\<close> (lines 90 to 107) for one entry, on
  the log and the sensors collected so far. Each \<^verbatim>\<open>continue\<close> is a branch that leaves
  the sensors as they are.
\<close>

definition readSensorsFromDir_entry ::
  "env \<Rightarrow> string \<Rightarrow> log \<times> Sensor list \<Rightarrow> DirEntry \<Rightarrow> log \<times> Sensor list" where
  "readSensorsFromDir_entry e dirPath st entry =
     (case st of (lg, sensors) \<Rightarrow>
        let lg1 = lg @ [Printf_Entry entry]
        in if \<not> DirEntry_IsDir entry \<and> strings_HasSuffix (DirEntry_Name entry) ''.json''
           then
             let lg2 = lg1 @ [Printf_opening (DirEntry_Name entry)];
                 filePath = filepath_Join dirPath (DirEntry_Name entry)
             in (case os_ReadFile e filePath of
                   Inl err \<Rightarrow> (lg2 @ [Printf_Error_reading_file filePath err], sensors)
                 | Inr fileBytes \<Rightarrow>
                     (case Sensor_UnmarshalJSON Sensor_zero fileBytes of
                        (sensor, Some err) \<Rightarrow>
                          (lg2 @ [Printf_Error_unmarshalling_JSON filePath err], sensors)
                      | (sensor, None) \<Rightarrow> (lg2, sensors @ [sensor])))
           else (lg1, sensors))"

text \<open>
  \<^verbatim>\<open>readSensorsFromDir\<close> (lines 84 to 109): the log after the call, and either the
  error of the listing (\<^verbatim>\<open>return nil, err\<close>) or the sensors (\<^verbatim>\<open>return sensors, nil\<close>).
\<close>

definition readSensorsFromDir :: "env \<Rightarrow> string \<Rightarrow> log \<Rightarrow> log \<times> (error + Sensor list)" where
  "readSensorsFromDir e dirPath lg =
     (case os_ReadDir e dirPath of
        Inl err \<Rightarrow> (lg, Inl err)
      | Inr entries \<Rightarrow>
          (case foldl (readSensorsFromDir_entry e dirPath) (lg, []) entries of
             (lg', sensors) \<Rightarrow> (lg', Inr sensors)))"

subsection \<open>The configuration\<close>

record RetryConfig =
  MinDuration :: Duration
  MaxDuration :: Duration
  Factor :: float64

record Config =
  LogLevel :: LogLevel
  ListenAddr :: string
  Sensors :: SensorList
  Device :: string
  RefreshDuration :: Duration
  RefreshTimeout :: Duration
  StaleDuration :: Duration
  Retry :: RetryConfig
  SensorDir :: string

text \<open>The zero value \<^verbatim>\<open>Config{}\<close>.\<close>

definition Config_zero :: Config where
  "Config_zero = \<lparr>LogLevel = 0, ListenAddr = [], Sensors = [], Device = [],
     RefreshDuration = 0, RefreshTimeout = 0, StaleDuration = 0,
     Retry = \<lparr>MinDuration = 0, MaxDuration = 0, Factor = Finite 0\<rparr>,
     SensorDir = []\<rparr>"

text \<open>The literal that \<^verbatim>\<open>Parse\<close> starts from (lines 176 to 189).\<close>

definition Config_default :: Config where
  "Config_default = \<lparr>LogLevel = logrus_InfoLevel, ListenAddr = '':9294'', Sensors = [],
     Device = ''hci0'',
     RefreshDuration = 2 * time_Minute, RefreshTimeout = time_Minute,
     StaleDuration = 5 * time_Minute,
     Retry = \<lparr>MinDuration = 30 * time_Second, MaxDuration = 30 * time_Minute,
              Factor = Finite 2\<rparr>,
     SensorDir = ''internal/config/sensorData''\<rparr>"

subsection \<open>Flags\<close>

text \<open>
  \<^verbatim>\<open>pflag\<close> is a library. A registered flag is its name and the \<^verbatim>\<open>Set\<close> method of its
  value, which parses a text and stores the result through the pointer the flag was
  registered with; the pointers of \<^verbatim>\<open>Parse\<close> all point into \<^verbatim>\<open>result\<close>, so \<open>Set\<close>
  takes the configuration and returns it updated. The flag set is the list of the flags
  registered so far.

  The command line is taken after \<^verbatim>\<open>pflag\<close> has cut it into flags: one pair for each
  occurrence of a flag, of the flag's long name (a shorthand stands for its long name) and
  the text of its value, in the order of the command line. The help flag, which
  \<^verbatim>\<open>pflag\<close> answers itself before it exits, is not told apart from any other name that
  was not registered.
\<close>

type_synonym Value = "string \<Rightarrow> Config \<Rightarrow> error + Config"
type_synonym FlagSet = "(string \<times> Value) list"

text \<open>
  \<^verbatim>\<open>StringVarP\<close>, \<^verbatim>\<open>DurationVarP\<close>/\<^verbatim>\<open>DurationVar\<close> and \<^verbatim>\<open>Float64Var\<close> store the default
  through the pointer and register the flag; \<open>p\<close> is the store through the pointer.
  \<^verbatim>\<open>Var\<close>/\<^verbatim>\<open>VarP\<close> register a value that brings its own \<^verbatim>\<open>Set\<close> and store nothing.
\<close>

definition pflag_StringVarP ::
  "(Config \<Rightarrow> string \<Rightarrow> Config) \<Rightarrow> string \<Rightarrow> string \<Rightarrow> FlagSet \<times> Config \<Rightarrow> FlagSet \<times> Config" where
  "pflag_StringVarP p name value st =
     (case st of (fs, result) \<Rightarrow>
        (fs @ [(name, \<lambda>text c. Inr (p c text))], p result value))"

definition pflag_DurationVarP ::
  "env \<Rightarrow> (Config \<Rightarrow> Duration \<Rightarrow> Config) \<Rightarrow> string \<Rightarrow> Duration \<Rightarrow>
   FlagSet \<times> Config \<Rightarrow> FlagSet \<times> Config" where
  "pflag_DurationVarP e p name value st =
     (case st of (fs, result) \<Rightarrow>
        (fs @ [(name, \<lambda>text c.
                  case time_ParseDuration e text of
                    Inl err \<Rightarrow> Inl err
                  | Inr d \<Rightarrow> Inr (p c d))],
         p result value))"

definition pflag_Float64Var ::
  "env \<Rightarrow> (Config \<Rightarrow> float64 \<Rightarrow> Config) \<Rightarrow> string \<Rightarrow> float64 \<Rightarrow>
   FlagSet \<times> Config \<Rightarrow> FlagSet \<times> Config" where
  "pflag_Float64Var e p name value st =
     (case st of (fs, result) \<Rightarrow>
        (fs @ [(name, \<lambda>text c.
                  case strconv_ParseFloat e text of
                    Inl err \<Rightarrow> Inl err
                  | Inr x \<Rightarrow> Inr (p c x))],
         p result value))"

definition pflag_VarP :: "Value \<Rightarrow> string \<Rightarrow> FlagSet \<times> Config \<Rightarrow> FlagSet \<times> Config" where
  "pflag_VarP v name st = (case st of (fs, result) \<Rightarrow> (fs @ [(name, v)], result))"

text \<open>
  The two values with a \<^verbatim>\<open>Set\<close> of the package: \<^verbatim>\<open>&result.Sensors\<close> with
  \<^verbatim>\<open>(*SensorList).Set\<close>, and \<^verbatim>\<open>&result.LogLevel\<close> with \<^verbatim>\<open>(*LogLevel).Set\<close>
  (lines 147 to 155).
\<close>

definition Sensors_Value :: Value where
  "Sensors_Value text c =
     (case SensorList_Set (Sensors c) text of
        Inl err \<Rightarrow> Inl err
      | Inr s \<Rightarrow> Inr (c\<lparr>Sensors := s\<rparr>))"

definition LogLevel_Set :: "env \<Rightarrow> LogLevel \<Rightarrow> string \<Rightarrow> error + LogLevel" where
  "LogLevel_Set e l val =
     (case logrus_ParseLevel e val of
        Inl err \<Rightarrow> Inl err
      | Inr level \<Rightarrow> Inr level)"

definition LogLevel_Value :: "env \<Rightarrow> Value" where
  "LogLevel_Value e text c =
     (case LogLevel_Set e (LogLevel c) text of
        Inl err \<Rightarrow> Inl err
      | Inr l \<Rightarrow> Inr (c\<lparr>LogLevel := l\<rparr>))"

text \<open>
  \<^verbatim>\<open>pflag.Parse()\<close> on the flags of the command line, in order: a name that was not
  registered is an error, and so is a value its flag's \<^verbatim>\<open>Set\<close> refuses. The first
  error ends the parse.
\<close>

fun pflag_Parse :: "FlagSet \<Rightarrow> (string \<times> string) list \<Rightarrow> Config \<Rightarrow> error + Config" where
  "pflag_Parse fs [] result = Inr result"
| "pflag_Parse fs ((name, text) # rest) result =
     (case map_of fs name of
        None \<Rightarrow> Inl (pflag_unknown_flag name)
      | Some v \<Rightarrow>
          (case v text result of
             Inl err \<Rightarrow> Inl (pflag_invalid_argument text name err)
           | Inr result' \<Rightarrow> pflag_Parse fs rest result'))"

subsection \<open>Parse\<close>

text \<open>
  How a call of \<^verbatim>\<open>Parse\<close> ends. The package-level flag set of \<^verbatim>\<open>pflag\<close> exits the
  process on a parse error (\<open>Flag_exit\<close>, with the error), and \<^verbatim>\<open>log.Fatalf\<close> exits it
  after logging (\<open>Fatal_exit\<close>). Otherwise \<^verbatim>\<open>Parse\<close> returns a \<^verbatim>\<open>Config\<close> and an
  error, \<open>None\<close> for \<^verbatim>\<open>nil\<close>.
\<close>

datatype outcome = Fatal_exit | Flag_exit error | Return Config "error option"

text \<open>
  The checks (lines 218 to 246), on the log so far and \<^verbatim>\<open>result\<close>: the log after
  them and the pair that \<^verbatim>\<open>Parse\<close> returns.
\<close>

definition Parse_checks :: "log \<Rightarrow> Config \<Rightarrow> log \<times> Config \<times> error option" where
  "Parse_checks lg result =
     (if length (Sensors result) = 0
      then (lg, result, Some (errors_New ''need to provide at least one sensor''))
      else if length (Device result) = 0
      then (lg, result, Some (errors_New ''need to provide a bluetooth device''))
      else
        let lg' = (if RefreshDuration result <s time_Minute
                   then lg @ [Warnf_Refresh_durations (RefreshDuration result)]
                   else lg)
        in if StaleDuration result <s 2 * RefreshDuration result
           then (lg', result, Some (Errorf_stale_duration (2 * RefreshDuration result)))
           else if MinDuration (Retry result) <s 30 * time_Second
           then (lg', result, Some (Errorf_retry_time (MinDuration (Retry result))))
           else if MaxDuration (Retry result) <s MinDuration (Retry result)
           then (lg', result,
                 Some (Errorf_maximum_retry_time (MinDuration (Retry result))
                         (MaxDuration (Retry result))))
           else if float64_less (Factor (Retry result)) (Finite 1)
           then (lg', result, Some (Errorf_retry_factor (Factor (Retry result))))
           else (lg', result, None))"

text \<open>
  The flags registered after the choice of the sensor source (lines 207 to 215), the
  parse of the command line and the checks.
\<close>

definition Parse_flags ::
  "env \<Rightarrow> (string \<times> string) list \<Rightarrow> log \<Rightarrow> FlagSet \<times> Config \<Rightarrow> log \<times> outcome" where
  "Parse_flags e args lg st0 =
     (let st1 = pflag_VarP (LogLevel_Value e) ''log-level'' st0;
          st2 = pflag_StringVarP (\<lambda>c v. c\<lparr>ListenAddr := v\<rparr>) ''addr'' (ListenAddr (snd st1)) st1;
          st3 = pflag_StringVarP (\<lambda>c v. c\<lparr>Device := v\<rparr>) ''adapter'' (Device (snd st2)) st2;
          st4 = pflag_DurationVarP e (\<lambda>c v. c\<lparr>RefreshDuration := v\<rparr>) ''refresh-duration''
                  (RefreshDuration (snd st3)) st3;
          st5 = pflag_DurationVarP e (\<lambda>c v. c\<lparr>RefreshTimeout := v\<rparr>) ''refresh-timeout''
                  (RefreshTimeout (snd st4)) st4;
          st6 = pflag_DurationVarP e (\<lambda>c v. c\<lparr>StaleDuration := v\<rparr>) ''stale-duration''
                  (StaleDuration (snd st5)) st5;
          st7 = pflag_DurationVarP e (\<lambda>c v. c\<lparr>Retry := (Retry c)\<lparr>MinDuration := v\<rparr>\<rparr>)
                  ''retry-min-duration'' (MinDuration (Retry (snd st6))) st6;
          st8 = pflag_DurationVarP e (\<lambda>c v. c\<lparr>Retry := (Retry c)\<lparr>MaxDuration := v\<rparr>\<rparr>)
                  ''retry-max-duration'' (MaxDuration (Retry (snd st7))) st7;
          st9 = pflag_Float64Var e (\<lambda>c v. c\<lparr>Retry := (Retry c)\<lparr>Factor := v\<rparr>\<rparr>)
                  ''retry-factor'' (Factor (Retry (snd st8))) st8
      in case pflag_Parse (fst st9) args (snd st9) of
           Inl err \<Rightarrow> (lg, Flag_exit err)
         | Inr result \<Rightarrow>
             (case Parse_checks lg result of (lg', c, err) \<Rightarrow> (lg', Return c err)))"

text \<open>
  \<^verbatim>\<open>Parse\<close> (lines 175 to 247), on the environment, the flags of the command line and
  the log so far. The test of \<^verbatim>\<open>result.SensorDir\<close> (line 195) comes before
  \<^verbatim>\<open>pflag.Parse()\<close> (line 216), as in the source.
\<close>

definition Parse :: "env \<Rightarrow> (string \<times> string) list \<Rightarrow> log \<Rightarrow> log \<times> outcome" where
  "Parse e args lg0 =
     (let result = Config_default;
          st = pflag_StringVarP (\<lambda>c v. c\<lparr>SensorDir := v\<rparr>) ''sensordir'' (SensorDir result)
                 ([], result);
          lg1 = lg0 @ [Printf_sensordir (SensorDir (snd st))]
      in if length (SensorDir (snd st)) \<noteq> 0
         then
           let lg2 = lg1 @ [Infof_sensor_directory (SensorDir (snd st))]
           in (case readSensorsFromDir e (SensorDir (snd st)) lg2 of
                 (lg3, Inl err) \<Rightarrow> (lg3 @ [Fatalf_Error_reading_sensors err], Fatal_exit)
               | (lg3, Inr sensors) \<Rightarrow>
                   Parse_flags e args lg3 (fst st, (snd st)\<lparr>Sensors := sensors\<rparr>))
         else Parse_flags e args lg1 (pflag_VarP Sensors_Value ''sensor'' st))"

subsection \<open>Notions used in the statements\<close>

text \<open>
  A record file is an entry the loop opens: not a directory, with a name that ends in
  \<^verbatim>\<open>.json\<close>. \<open>decode_file\<close> is the descriptor such an entry yields when its file can be
  read and \<^verbatim>\<open>UnmarshalJSON\<close> returns \<^verbatim>\<open>nil\<close> on its bytes, and \<open>None\<close> for any other
  entry. \<open>is_skip\<close> holds of the two log calls that report a file that was skipped, and
  \<open>known_key\<close> of the keys that select a field of \<^verbatim>\<open>raw\<close>.
\<close>

definition record_file :: "DirEntry \<Rightarrow> bool" where
  "record_file entry =
     (\<not> DirEntry_IsDir entry \<and> strings_HasSuffix (DirEntry_Name entry) ''.json'')"

definition decode_file :: "env \<Rightarrow> string \<Rightarrow> DirEntry \<Rightarrow> Sensor option" where
  "decode_file e dirPath entry =
     (if record_file entry
      then (case os_ReadFile e (filepath_Join dirPath (DirEntry_Name entry)) of
              Inl err \<Rightarrow> None
            | Inr fileBytes \<Rightarrow>
                (case Sensor_UnmarshalJSON Sensor_zero fileBytes of
                   (sensor, Some err) \<Rightarrow> None
                 | (sensor, None) \<Rightarrow> Some sensor))
      else None)"

fun is_skip :: "log_call \<Rightarrow> bool" where
  "is_skip (Printf_Error_reading_file path err) = True"
| "is_skip (Printf_Error_unmarshalling_JSON path err) = True"
| "is_skip c = False"

text \<open>
  The members a record may hold without a decode error. \<open>string_ok\<close> and \<open>int_ok\<close>
  hold of the values a \<^verbatim>\<open>string\<close> field and an \<^verbatim>\<open>int\<close> field accept: \<^verbatim>\<open>null\<close>, and
  a string, respectively an integer literal within 64 bits. \<open>threshold_name\<close> holds of
  the folded keys of the six thresholds. A member of the \<^verbatim>\<open>parameter\<close> object is
  acceptable unless it is a threshold with a value that is not \<open>int_ok\<close>; a
  \<^verbatim>\<open>parameter\<close> value is acceptable when it is \<^verbatim>\<open>null\<close> or an object of acceptable
  members; a member of the record is acceptable unless it is a \<^verbatim>\<open>name\<close> or \<^verbatim>\<open>sensor\<close>
  that is not \<open>string_ok\<close> or a \<^verbatim>\<open>parameter\<close> that is not acceptable. \<open>shape_ok\<close> holds
  of the bytes that are JSON and denote \<^verbatim>\<open>null\<close> or an object of acceptable members.
\<close>

fun string_ok :: "json \<Rightarrow> bool" where
  "string_ok JNull = True"
| "string_ok (JString s) = True"
| "string_ok v = False"

fun int_ok :: "json \<Rightarrow> bool" where
  "int_ok JNull = True"
| "int_ok (JInteger n) = (- (2 ^ 63) \<le> n \<and> n < 2 ^ 63)"
| "int_ok v = False"

definition threshold_name :: "string \<Rightarrow> bool" where
  "threshold_name key =
     (key = ''MAX_SOIL_MOIST'' \<or> key = ''MIN_SOIL_MOIST'' \<or> key = ''MAX_SOIL_EC''
      \<or> key = ''MIN_SOIL_EC'' \<or> key = ''MAX_LIGHT_LUX'' \<or> key = ''MIN_LIGHT_LUX'')"

definition Parameter_member_ok :: "string \<times> json \<Rightarrow> bool" where
  "Parameter_member_ok m =
     (if threshold_name (foldName (fst m)) then int_ok (snd m) else True)"

fun Parameter_ok :: "json \<Rightarrow> bool" where
  "Parameter_ok JNull = True"
| "Parameter_ok (JObject members) = list_all Parameter_member_ok members"
| "Parameter_ok v = False"

definition member_ok :: "string \<times> json \<Rightarrow> bool" where
  "member_ok m =
     (if foldName (fst m) = ''NAME'' \<or> foldName (fst m) = ''SENSOR'' then string_ok (snd m)
      else if foldName (fst m) = ''PARAMETER'' then Parameter_ok (snd m)
      else True)"

fun shape_ok :: "bytes \<Rightarrow> bool" where
  "shape_ok InvalidJSON = False"
| "shape_ok (ValidJSON JNull) = True"
| "shape_ok (ValidJSON (JObject members)) = list_all member_ok members"
| "shape_ok (ValidJSON v) = False"

definition known_key :: "string \<Rightarrow> bool" where
  "known_key key =
     (foldName key = ''NAME'' \<or> foldName key = ''SENSOR'' \<or> foldName key = ''PARAMETER'')"

text \<open>
  The flags \<^verbatim>\<open>Parse\<close> has registered when it calls \<^verbatim>\<open>pflag.Parse()\<close> after it
  has read the sensors from a directory: the nine flags of lines 193 and 207 to 215.
\<close>

definition directory_flags :: "env \<Rightarrow> FlagSet" where
  "directory_flags e =
     [(''sensordir'', \<lambda>text c. Inr (c\<lparr>SensorDir := text\<rparr>)),
      (''log-level'', LogLevel_Value e),
      (''addr'', \<lambda>text c. Inr (c\<lparr>ListenAddr := text\<rparr>)),
      (''adapter'', \<lambda>text c. Inr (c\<lparr>Device := text\<rparr>)),
      (''refresh-duration'', \<lambda>text c. case time_ParseDuration e text of
          Inl err \<Rightarrow> Inl err | Inr d \<Rightarrow> Inr (c\<lparr>RefreshDuration := d\<rparr>)),
      (''refresh-timeout'', \<lambda>text c. case time_ParseDuration e text of
          Inl err \<Rightarrow> Inl err | Inr d \<Rightarrow> Inr (c\<lparr>RefreshTimeout := d\<rparr>)),
      (''stale-duration'', \<lambda>text c. case time_ParseDuration e text of
          Inl err \<Rightarrow> Inl err | Inr d \<Rightarrow> Inr (c\<lparr>StaleDuration := d\<rparr>)),
      (''retry-min-duration'', \<lambda>text c. case time_ParseDuration e text of
          Inl err \<Rightarrow> Inl err | Inr d \<Rightarrow> Inr (c\<lparr>Retry := (Retry c)\<lparr>MinDuration := d\<rparr>\<rparr>)),
      (''retry-max-duration'', \<lambda>text c. case time_ParseDuration e text of
          Inl err \<Rightarrow> Inl err | Inr d \<Rightarrow> Inr (c\<lparr>Retry := (Retry c)\<lparr>MaxDuration := d\<rparr>\<rparr>)),
      (''retry-factor'', \<lambda>text c. case strconv_ParseFloat e text of
          Inl err \<Rightarrow> Inl err | Inr x \<Rightarrow> Inr (c\<lparr>Retry := (Retry c)\<lparr>Factor := x\<rparr>\<rparr>))]"

subsection \<open>Example environments\<close>

text \<open>
  \<open>env_example\<close>: the default directory \<^verbatim>\<open>internal/config/sensorData\<close> lists, in this
  order,
  \<^item> \<^verbatim>\<open>kitchen.json\<close>:
    \<^verbatim>\<open>{"name":"kitchen","sensor":"AA:BB:CC:DD:EE:FF","parameter":{"max_soil_moist":60}}\<close>;
  \<^item> \<^verbatim>\<open>empty.json\<close>: \<^verbatim>\<open>{}\<close>;
  \<^item> \<^verbatim>\<open>other.json\<close>: \<^verbatim>\<open>{"foo":1}\<close>;
  \<^item> \<^verbatim>\<open>broken.json\<close>: a text that is not JSON;
  \<^item> \<^verbatim>\<open>locked.json\<close>: a file that cannot be read;
  \<^item> \<^verbatim>\<open>array.json\<close>: \<^verbatim>\<open>[1]\<close>;
  \<^item> \<^verbatim>\<open>archive.json\<close>: a directory;
  \<^item> \<^verbatim>\<open>notes.txt\<close>: a file.

  No other directory can be listed. The parsers know a few texts.
\<close>

definition example_ReadDir :: "string \<Rightarrow> error + DirEntry list" where
  "example_ReadDir path =
     (if path = ''internal/config/sensorData''
      then Inr [DirEntry ''kitchen.json'' False, DirEntry ''empty.json'' False,
                DirEntry ''other.json'' False, DirEntry ''broken.json'' False,
                DirEntry ''locked.json'' False, DirEntry ''array.json'' False,
                DirEntry ''archive.json'' True, DirEntry ''notes.txt'' False]
      else Inl (os_PathError ''open'' path))"

definition example_ReadFile :: "string \<Rightarrow> error + bytes" where
  "example_ReadFile path =
     (if path = ''internal/config/sensorData/kitchen.json''
      then Inr (ValidJSON (JObject [(''name'', JString ''kitchen''),
                                    (''sensor'', JString ''AA:BB:CC:DD:EE:FF''),
                                    (''parameter'', JObject [(''max_soil_moist'', JInteger 60)])]))
      else if path = ''internal/config/sensorData/empty.json''
      then Inr (ValidJSON (JObject []))
      else if path = ''internal/config/sensorData/other.json''
      then Inr (ValidJSON (JObject [(''foo'', JInteger 1)]))
      else if path = ''internal/config/sensorData/broken.json''
      then Inr InvalidJSON
      else if path = ''internal/config/sensorData/array.json''
      then Inr (ValidJSON (JArray [JInteger 1]))
      else if path = ''internal/config/sensorData/notes.txt''
      then Inr InvalidJSON
      else Inl (os_PathError ''open'' path))"

definition example_ParseDuration :: "string \<Rightarrow> error + Duration" where
  "example_ParseDuration text =
     (if text = ''1m'' then Inr time_Minute
      else if text = ''3m'' then Inr (3 * time_Minute)
      else if text = ''30s'' then Inr (30 * time_Second)
      else Inl (lib_ParseError text))"

definition example_ParseFloat :: "string \<Rightarrow> error + float64" where
  "example_ParseFloat text =
     (if text = ''1'' then Inr (Finite 1)
      else if text = ''0.5'' then Inr (Finite (1 / 2))
      else Inl (lib_ParseError text))"

definition example_ParseLevel :: "string \<Rightarrow> error + LogLevel" where
  "example_ParseLevel text =
     (if text = ''info'' then Inr logrus_InfoLevel
      else if text = ''panic'' then Inr logrus_PanicLevel
      else Inl (lib_ParseError text))"

definition env_example :: env where
  "env_example = \<lparr>os_ReadDir = example_ReadDir, os_ReadFile = example_ReadFile,
     time_ParseDuration = example_ParseDuration, strconv_ParseFloat = example_ParseFloat,
     logrus_ParseLevel = example_ParseLevel\<rparr>"

text \<open>\<open>env_empty_dir\<close>: as \<open>env_example\<close>, but every directory is empty.\<close>

definition env_empty_dir :: env where
  "env_empty_dir = env_example\<lparr>os_ReadDir := \<lambda>path. Inr []\<rparr>"

text \<open>The descriptor of \<^verbatim>\<open>kitchen.json\<close>.\<close>

definition kitchen :: Sensor where
  "kitchen = Sensor_zero\<lparr>Name := ''kitchen'', MacAddress := ''AA:BB:CC:DD:EE:FF'',
     MaxSoilMoist := 60\<rparr>"

section \<open>Properties\<close>

subsection \<open>Sensor tokens\<close>

lemma SplitN_no_sep: "sep \<notin> set s \<Longrightarrow> strings_SplitN_2 s sep = [s]"
  by (simp add: strings_SplitN_2_def)

lemma SplitN_first_sep:
  "sep \<notin> set a \<Longrightarrow> strings_SplitN_2 (a @ sep # b) sep = [a, b]"
  by (induction a) (auto simp add: strings_SplitN_2_def)

lemma parseSensor_empty: "parseSensor [] = Inl (errors_New ''empty string'')"
  by (simp add: parseSensor_def)

lemma parseSensor_address:
  "token \<noteq> [] \<Longrightarrow> CHR ''='' \<notin> set token \<Longrightarrow>
   parseSensor token = Inr (Sensor_zero\<lparr>MacAddress := token\<rparr>)"
  by (simp add: parseSensor_def SplitN_no_sep)

lemma parseSensor_name_address:
  "CHR ''='' \<notin> set name \<Longrightarrow>
   parseSensor (name @ CHR ''='' # address)
     = Inr (Sensor_zero\<lparr>Name := name, MacAddress := address\<rparr>)"
  by (simp add: parseSensor_def SplitN_first_sep)

lemma Sensors_flag_appends:
  "map parseSensor tokens = map Inr sensors \<Longrightarrow>
   pflag_Parse [(''sensor'', Sensors_Value)] (map (Pair ''sensor'') tokens) c
     = Inr (c\<lparr>Sensors := Sensors c @ sensors\<rparr>)"
proof (induction tokens arbitrary: c sensors)
  case Nil
  then show ?case by simp
next
  case (Cons t ts)
  then obtain x xs where s: "sensors = x # xs" and p: "parseSensor t = Inr x"
    and r: "map parseSensor ts = map Inr xs" by (cases sensors) auto
  show ?case using Cons.IH [OF r, of "c\<lparr>Sensors := Sensors c @ [x]\<rparr>"] p s
    by (simp add: Sensors_Value_def SensorList_Set_def)
qed

lemma parseSensor_ends_eq:
  "\<exists>sensor. parseSensor (t @ ''='') = Inr sensor
     \<and> SensorList_Set s (t @ ''='') = Inr (s @ [sensor])"
  by (simp add: parseSensor_def SensorList_Set_def Let_def)

text \<open>
  Claim C5. The empty token fails, in \<^verbatim>\<open>parseSensor\<close> with the error whose message is
  \<^verbatim>\<open>empty string\<close>, which \<^verbatim>\<open>Set\<close> wraps. A non-empty token without \<^verbatim>\<open>=\<close> is the
  address of a descriptor with an empty name. A token with \<^verbatim>\<open>=\<close> is split at the first
  one: whatever stands before it, free of \<^verbatim>\<open>=\<close>, is the name, and all that follows, which
  may hold further \<^verbatim>\<open>=\<close>, is the address. \<^verbatim>\<open>Set\<close> appends the parsed descriptor to the
  list, and a flag registered with this \<^verbatim>\<open>Set\<close> collects the descriptors of its
  occurrences in the order of the command line, after those already in the list.
\<close>

theorem parseSensor_token_rules:
  "parseSensor [] = Inl (errors_New ''empty string'')
   \<and> SensorList_Set s [] = Inl (Errorf_can_not_parse_sensor (errors_New ''empty string''))
   \<and> (token \<noteq> [] \<and> CHR ''='' \<notin> set token \<longrightarrow>
        parseSensor token = Inr (Sensor_zero\<lparr>MacAddress := token\<rparr>))
   \<and> (CHR ''='' \<notin> set name \<longrightarrow>
        parseSensor (name @ ''='' @ address)
          = Inr (Sensor_zero\<lparr>Name := name, MacAddress := address\<rparr>))
   \<and> (parseSensor token = Inr sensor \<longrightarrow> SensorList_Set s token = Inr (s @ [sensor]))
   \<and> (map parseSensor tokens = map Inr sensors \<longrightarrow>
        pflag_Parse [(''sensor'', Sensors_Value)] (map (Pair ''sensor'') tokens) c
          = Inr (c\<lparr>Sensors := Sensors c @ sensors\<rparr>))"
  using parseSensor_empty parseSensor_address parseSensor_name_address Sensors_flag_appends
  by (simp add: SensorList_Set_def)

theorem parseSensor_token_rules_witness:
  "parseSensor ''AA:BB'' = Inr (Sensor_zero\<lparr>MacAddress := ''AA:BB''\<rparr>)
   \<and> parseSensor ''kitchen=AA=BB''
       = Inr (Sensor_zero\<lparr>Name := ''kitchen'', MacAddress := ''AA=BB''\<rparr>)
   \<and> SensorList_Set [Sensor_zero] ''AA:BB''
       = Inr [Sensor_zero, Sensor_zero\<lparr>MacAddress := ''AA:BB''\<rparr>]
   \<and> pflag_Parse [(''sensor'', Sensors_Value)] [(''sensor'', ''k=A''), (''sensor'', ''B'')]
         Config_default
       = Inr (Config_default\<lparr>Sensors := [Sensor_zero\<lparr>Name := ''k'', MacAddress := ''A''\<rparr>,
                                            Sensor_zero\<lparr>MacAddress := ''B''\<rparr>]\<rparr>)"
proof -
  have p1: "parseSensor ''AA:BB'' = Inr (Sensor_zero\<lparr>MacAddress := ''AA:BB''\<rparr>)"
    by (simp add: parseSensor_def strings_SplitN_2_def)
  have p2: "map parseSensor [''k=A'', ''B'']
              = map Inr [Sensor_zero\<lparr>Name := ''k'', MacAddress := ''A''\<rparr>,
                         Sensor_zero\<lparr>MacAddress := ''B''\<rparr>]"
    by (simp add: parseSensor_def strings_SplitN_2_def)
  have p3: "Sensors Config_default = []" by (simp add: Config_default_def)
  show ?thesis
    using parseSensor_token_rules
            [where token = "''AA:BB''" and name = "''kitchen''" and address = "''AA=BB''"
               and sensor = "Sensor_zero\<lparr>MacAddress := ''AA:BB''\<rparr>"
               and s = "[Sensor_zero]" and tokens = "[''k=A'', ''B'']"
               and sensors = "[Sensor_zero\<lparr>Name := ''k'', MacAddress := ''A''\<rparr>,
                               Sensor_zero\<lparr>MacAddress := ''B''\<rparr>]"
               and c = Config_default] p1 p2 p3
    by simp
qed

text \<open>
  Claim C10, as the code has it. A token that ends in \<^verbatim>\<open>=\<close> is parsed without an error
  and \<^verbatim>\<open>Set\<close> appends its descriptor. When that final \<^verbatim>\<open>=\<close> is the only one of the
  token, the descriptor has the text before it as its name and the empty string as its
  address.
\<close>

theorem parseSensor_trailing_separator:
  "(\<exists>sensor. parseSensor (t @ ''='') = Inr sensor
      \<and> SensorList_Set s (t @ ''='') = Inr (s @ [sensor]))
   \<and> (CHR ''='' \<notin> set t \<longrightarrow>
        parseSensor (t @ ''='') = Inr (Sensor_zero\<lparr>Name := t, MacAddress := []\<rparr>)
        \<and> SensorList_Set s (t @ ''='')
            = Inr (s @ [Sensor_zero\<lparr>Name := t, MacAddress := []\<rparr>]))"
  using parseSensor_name_address [of t "[]"] parseSensor_ends_eq [of t s]
  by (simp add: SensorList_Set_def)

theorem parseSensor_trailing_separator_witness:
  "parseSensor ''name='' = Inr (Sensor_zero\<lparr>Name := ''name'', MacAddress := []\<rparr>)
   \<and> SensorList_Set [] ''name='' = Inr [Sensor_zero\<lparr>Name := ''name'', MacAddress := []\<rparr>]"
  using parseSensor_trailing_separator [of "''name''" "[]"] by simp

text \<open>
  The claim as it was stated fails on a token that ends in \<^verbatim>\<open>=\<close> and holds an earlier
  one: the split is at the first, and the address of \<^verbatim>\<open>a=b=\<close> is \<^verbatim>\<open>b=\<close>, not empty.
\<close>

theorem parseSensor_trailing_separator_counterexample:
  "''a=b='' \<noteq> [] \<and> last ''a=b='' = CHR ''=''
   \<and> parseSensor ''a=b='' = Inr (Sensor_zero\<lparr>Name := ''a'', MacAddress := ''b=''\<rparr>)
   \<and> MacAddress (Sensor_zero\<lparr>Name := ''a'', MacAddress := ''b=''\<rparr>) \<noteq> []"
  by (simp add: parseSensor_def strings_SplitN_2_def)

subsection \<open>The directory strategy\<close>

lemma entry_sensors:
  "snd (readSensorsFromDir_entry e d (lg, ss) x)
     = ss @ (case decode_file e d x of None \<Rightarrow> [] | Some s \<Rightarrow> [s])"
  by (simp add: readSensorsFromDir_entry_def decode_file_def record_file_def Let_def
           split: sum.splits prod.splits option.splits)

lemma entry_skips:
  "length (filter is_skip (fst (readSensorsFromDir_entry e d (lg, ss) x)))
     = length (filter is_skip lg)
       + (if record_file x \<and> decode_file e d x = None then 1 else 0)"
  by (simp add: readSensorsFromDir_entry_def decode_file_def record_file_def Let_def
           split: sum.splits prod.splits option.splits)

lemma foldl_entries:
  "snd (foldl (readSensorsFromDir_entry e d) (lg, ss) entries)
     = ss @ List.map_filter (decode_file e d) entries
   \<and> length (filter is_skip (fst (foldl (readSensorsFromDir_entry e d) (lg, ss) entries)))
     = length (filter is_skip lg)
       + length (filter (\<lambda>x. record_file x \<and> decode_file e d x = None) entries)"
proof (induction entries arbitrary: lg ss)
  case Nil
  then show ?case by (simp add: List.map_filter_simps)
next
  case (Cons x xs)
  obtain lg1 ss1 where st: "readSensorsFromDir_entry e d (lg, ss) x = (lg1, ss1)"
    by (cases "readSensorsFromDir_entry e d (lg, ss) x")
  have s1: "ss1 = ss @ (case decode_file e d x of None \<Rightarrow> [] | Some s \<Rightarrow> [s])"
    using entry_sensors [of e d lg ss x] st by simp
  have k1: "length (filter is_skip lg1) = length (filter is_skip lg)
       + (if record_file x \<and> decode_file e d x = None then 1 else 0)"
    using entry_skips [of e d lg ss x] st by simp
  show ?case
    using Cons.IH [of lg1 ss1] st s1 k1
    by (simp add: List.map_filter_simps split: option.splits)
qed

lemma readSensorsFromDir_listing_error:
  "os_ReadDir e d = Inl err \<Longrightarrow> readSensorsFromDir e d lg = (lg, Inl err)"
  by (simp add: readSensorsFromDir_def)

lemma readSensorsFromDir_listed:
  assumes "os_ReadDir e d = Inr entries"
  shows "\<exists>lg'. readSensorsFromDir e d lg = (lg', Inr (List.map_filter (decode_file e d) entries))
     \<and> length (filter is_skip lg') = length (filter is_skip lg)
         + length (filter (\<lambda>x. record_file x \<and> decode_file e d x = None) entries)"
proof -
  obtain lg' ss where f: "foldl (readSensorsFromDir_entry e d) (lg, []) entries = (lg', ss)"
    by (cases "foldl (readSensorsFromDir_entry e d) (lg, []) entries")
  have "ss = List.map_filter (decode_file e d) entries"
    using foldl_entries [of e d lg "[]" entries] f by simp
  moreover have "length (filter is_skip lg') = length (filter is_skip lg)
         + length (filter (\<lambda>x. record_file x \<and> decode_file e d x = None) entries)"
    using foldl_entries [of e d lg "[]" entries] f by simp
  ultimately show ?thesis using assms f by (simp add: readSensorsFromDir_def)
qed

lemma length_map_filter:
  "length (List.map_filter f xs) = length (filter (\<lambda>x. f x \<noteq> None) xs)"
  by (simp add: List.map_filter_def)

text \<open>
  Claim C4. When the directory cannot be listed, \<^verbatim>\<open>readSensorsFromDir\<close> returns the
  error of the listing and no sensors, and logs nothing. When it can, the call returns
  without an error: the descriptors are as many as the entries that are record files,
  can be read and decode (N), and the log grows by one report of a skipped file for each
  record file that cannot be read or does not decode (M). With N = 0 the result is the
  empty list, still without an error.
\<close>

theorem readSensorsFromDir_partial_failure:
  "(os_ReadDir e dirPath = Inl err \<longrightarrow> readSensorsFromDir e dirPath lg = (lg, Inl err))
   \<and> (os_ReadDir e dirPath = Inr entries \<longrightarrow>
        (\<exists>lg' sensors. readSensorsFromDir e dirPath lg = (lg', Inr sensors)
           \<and> length sensors = length (filter (\<lambda>x. decode_file e dirPath x \<noteq> None) entries)
           \<and> length (filter is_skip lg') = length (filter is_skip lg)
               + length (filter (\<lambda>x. record_file x \<and> decode_file e dirPath x = None) entries)))
   \<and> (os_ReadDir e dirPath = Inr entries
        \<and> filter (\<lambda>x. decode_file e dirPath x \<noteq> None) entries = [] \<longrightarrow>
        snd (readSensorsFromDir e dirPath lg) = Inr [])"
proof (intro conjI impI)
  assume "os_ReadDir e dirPath = Inl err"
  then show "readSensorsFromDir e dirPath lg = (lg, Inl err)"
    by (rule readSensorsFromDir_listing_error)
next
  assume "os_ReadDir e dirPath = Inr entries"
  from readSensorsFromDir_listed [OF this, of lg]
  show "\<exists>lg' sensors. readSensorsFromDir e dirPath lg = (lg', Inr sensors)
           \<and> length sensors = length (filter (\<lambda>x. decode_file e dirPath x \<noteq> None) entries)
           \<and> length (filter is_skip lg') = length (filter is_skip lg)
               + length (filter (\<lambda>x. record_file x \<and> decode_file e dirPath x = None) entries)"
    using length_map_filter [of "decode_file e dirPath" entries] by auto
next
  assume a: "os_ReadDir e dirPath = Inr entries
        \<and> filter (\<lambda>x. decode_file e dirPath x \<noteq> None) entries = []"
  then have l: "os_ReadDir e dirPath = Inr entries" by simp
  from readSensorsFromDir_listed [OF l, of lg] a
  show "snd (readSensorsFromDir e dirPath lg) = Inr []"
    using length_map_filter [of "decode_file e dirPath" entries] by auto
qed

lemma example_listing:
  "os_ReadDir env_example ''internal/config/sensorData''
     = Inr [DirEntry ''kitchen.json'' False, DirEntry ''empty.json'' False,
            DirEntry ''other.json'' False, DirEntry ''broken.json'' False,
            DirEntry ''locked.json'' False, DirEntry ''array.json'' False,
            DirEntry ''archive.json'' True, DirEntry ''notes.txt'' False]"
  by (simp add: env_example_def example_ReadDir_def)

lemma example_decode:
  "map (decode_file env_example ''internal/config/sensorData'')
     [DirEntry ''kitchen.json'' False, DirEntry ''empty.json'' False,
            DirEntry ''other.json'' False, DirEntry ''broken.json'' False,
            DirEntry ''locked.json'' False, DirEntry ''array.json'' False,
            DirEntry ''archive.json'' True, DirEntry ''notes.txt'' False]
   = [Some kitchen, Some Sensor_zero, Some Sensor_zero, None, None, None, None, None]"
  by code_simp

lemma example_record_file:
  "map record_file
     [DirEntry ''kitchen.json'' False, DirEntry ''empty.json'' False,
            DirEntry ''other.json'' False, DirEntry ''broken.json'' False,
            DirEntry ''locked.json'' False, DirEntry ''array.json'' False,
            DirEntry ''archive.json'' True, DirEntry ''notes.txt'' False]
   = [True, True, True, True, True, True, False, False]"
  by code_simp


theorem readSensorsFromDir_partial_failure_witness:
  "readSensorsFromDir env_example ''nowhere'' [] = ([], Inl (os_PathError ''open'' ''nowhere''))
   \<and> (\<exists>lg' sensors. readSensorsFromDir env_example ''internal/config/sensorData'' [] = (lg', Inr sensors)
         \<and> length sensors = 3 \<and> length (filter is_skip lg') = 3)
   \<and> snd (readSensorsFromDir env_empty_dir ''internal/config/sensorData'' []) = Inr []"
proof -
  have a: "os_ReadDir env_example ''nowhere'' = Inl (os_PathError ''open'' ''nowhere'')"
    by (simp add: env_example_def example_ReadDir_def)
  have b: "os_ReadDir env_empty_dir ''internal/config/sensorData'' = Inr []"
    by (simp add: env_empty_dir_def)
  have c: "length (filter (\<lambda>x. decode_file env_example ''internal/config/sensorData'' x \<noteq> None)
             [DirEntry ''kitchen.json'' False, DirEntry ''empty.json'' False,
              DirEntry ''other.json'' False, DirEntry ''broken.json'' False,
              DirEntry ''locked.json'' False, DirEntry ''array.json'' False,
              DirEntry ''archive.json'' True, DirEntry ''notes.txt'' False]) = 3"
    using example_decode by simp
  have d: "length (filter (\<lambda>x. record_file x
                \<and> decode_file env_example ''internal/config/sensorData'' x = None)
             [DirEntry ''kitchen.json'' False, DirEntry ''empty.json'' False,
              DirEntry ''other.json'' False, DirEntry ''broken.json'' False,
              DirEntry ''locked.json'' False, DirEntry ''array.json'' False,
              DirEntry ''archive.json'' True, DirEntry ''notes.txt'' False]) = 3"
    using example_decode example_record_file by simp
  show ?thesis
    using readSensorsFromDir_partial_failure [of env_example "''nowhere''" "os_PathError ''open'' ''nowhere''" "[]" "[]"]
          readSensorsFromDir_partial_failure [of env_example "''internal/config/sensorData''" undefined "[]"
                       "[DirEntry ''kitchen.json'' False, DirEntry ''empty.json'' False,
                         DirEntry ''other.json'' False, DirEntry ''broken.json'' False,
                         DirEntry ''locked.json'' False, DirEntry ''array.json'' False,
                         DirEntry ''archive.json'' True, DirEntry ''notes.txt'' False]"]
          readSensorsFromDir_partial_failure [of env_empty_dir "''internal/config/sensorData''" undefined "[]" "[]"]
          a b c d example_listing
    by simp
qed

text \<open>
  Claim C3, as the code has it. \<^verbatim>\<open>readSensorsFromDir\<close> keeps every descriptor it
  decodes, whatever its address: the list it returns holds, in the order of the listing,
  the descriptors of the record files that were read and decoded, and a descriptor with
  an empty hardware address among them is in the list.
\<close>

theorem readSensorsFromDir_keeps_empty_address:
  "(os_ReadDir e dirPath = Inr entries \<longrightarrow>
      snd (readSensorsFromDir e dirPath lg)
        = Inr (List.map_filter (decode_file e dirPath) entries))
   \<and> (os_ReadDir e dirPath = Inr entries \<and> x \<in> set entries
        \<and> decode_file e dirPath x = Some s \<and> MacAddress s = [] \<longrightarrow>
      (\<exists>sensors. snd (readSensorsFromDir e dirPath lg) = Inr sensors \<and> s \<in> set sensors))"
proof (intro conjI impI)
  assume l: "os_ReadDir e dirPath = Inr entries"
  from readSensorsFromDir_listed [OF l, of lg]
  show "snd (readSensorsFromDir e dirPath lg)
        = Inr (List.map_filter (decode_file e dirPath) entries)" by auto
next
  assume a: "os_ReadDir e dirPath = Inr entries \<and> x \<in> set entries
        \<and> decode_file e dirPath x = Some s \<and> MacAddress s = []"
  then have l: "os_ReadDir e dirPath = Inr entries" by simp
  have "s \<in> set (List.map_filter (decode_file e dirPath) entries)"
    using a by (force simp add: List.map_filter_def)
  with readSensorsFromDir_listed [OF l, of lg]
  show "\<exists>sensors. snd (readSensorsFromDir e dirPath lg) = Inr sensors \<and> s \<in> set sensors"
    by auto
qed

theorem readSensorsFromDir_keeps_empty_address_witness:
  "snd (readSensorsFromDir env_example ''internal/config/sensorData'' [])
     = Inr (List.map_filter (decode_file env_example ''internal/config/sensorData'')
         [DirEntry ''kitchen.json'' False, DirEntry ''empty.json'' False,
          DirEntry ''other.json'' False, DirEntry ''broken.json'' False,
          DirEntry ''locked.json'' False, DirEntry ''array.json'' False,
          DirEntry ''archive.json'' True, DirEntry ''notes.txt'' False])
   \<and> MacAddress Sensor_zero = []
   \<and> (\<exists>sensors. snd (readSensorsFromDir env_example ''internal/config/sensorData'' []) = Inr sensors
        \<and> Sensor_zero \<in> set sensors)"
proof -
  have d: "decode_file env_example ''internal/config/sensorData'' (DirEntry ''empty.json'' False)
             = Some Sensor_zero"
    by code_simp
  have z: "MacAddress Sensor_zero = []" by (simp add: Sensor_zero_def)
  have m: "DirEntry ''empty.json'' False
             \<in> set [DirEntry ''kitchen.json'' False, DirEntry ''empty.json'' False,
                   DirEntry ''other.json'' False, DirEntry ''broken.json'' False,
                   DirEntry ''locked.json'' False, DirEntry ''array.json'' False,
                   DirEntry ''archive.json'' True, DirEntry ''notes.txt'' False]"
    by simp
  show ?thesis
    using readSensorsFromDir_keeps_empty_address [of env_example "''internal/config/sensorData''"
                 "[DirEntry ''kitchen.json'' False, DirEntry ''empty.json'' False,
                   DirEntry ''other.json'' False, DirEntry ''broken.json'' False,
                   DirEntry ''locked.json'' False, DirEntry ''array.json'' False,
                   DirEntry ''archive.json'' True, DirEntry ''notes.txt'' False]"
                 "[]" "DirEntry ''empty.json'' False" Sensor_zero]
          example_listing d z m
    by blast
qed

text \<open>
  The claim as it was stated fails on the example directory: \<^verbatim>\<open>empty.json\<close> and
  \<^verbatim>\<open>other.json\<close> hold no \<^verbatim>\<open>sensor\<close> member, and their descriptors, with an empty
  hardware address, are returned.
\<close>

theorem readSensorsFromDir_keeps_empty_address_counterexample:
  "snd (readSensorsFromDir env_example ''internal/config/sensorData'' [])
     = Inr [kitchen, Sensor_zero, Sensor_zero]
   \<and> MacAddress Sensor_zero = []"
  by code_simp

subsection \<open>Decoding a record\<close>

lemma map_sum_id_Inl: "map_sum id f x = Inl err \<Longrightarrow> x = Inl err"
  by (cases x) auto

lemma map_sum_ok: "\<exists>a. x = Inr a \<Longrightarrow> \<exists>b. map_sum id f x = Inr b"
  by auto

lemma decode_string_ok: "string_ok v \<Longrightarrow> \<exists>s. decode_string v cur = Inr s"
  by (cases v) auto

lemma decode_string_bad: "\<not> string_ok v \<Longrightarrow> decode_string v cur = Inl json_UnmarshalTypeError"
  by (cases v) auto

lemma decode_int_ok: "int_ok v \<Longrightarrow> \<exists>n. decode_int v cur = Inr n"
  by (cases v) auto

lemma decode_int_bad: "\<not> int_ok v \<Longrightarrow> decode_int v cur = Inl json_UnmarshalTypeError"
  by (cases v) auto

lemma decode_members_ok:
  assumes "\<And>k v x. ok (k, v) \<Longrightarrow> \<exists>x'. field (foldName k) v x = Inr x'"
  shows "list_all ok members \<Longrightarrow> \<exists>x'. decode_members field members x = Inr x'"
proof (induction members arbitrary: x)
  case Nil
  then show ?case by simp
next
  case (Cons m ms)
  obtain k v where m: "m = (k, v)" by (cases m)
  from Cons.prems m have "ok (k, v)" and rest: "list_all ok ms" by simp_all
  then obtain x1 where f: "field (foldName k) v x = Inr x1" using assms by blast
  from Cons.IH [OF rest, of x1] f m show ?case by simp
qed

lemma decode_members_bad:
  assumes bad: "\<And>k v x. \<not> ok (k, v) \<Longrightarrow> field (foldName k) v x = Inl E"
    and only: "\<And>k v x err. field k v x = Inl err \<Longrightarrow> err = E"
  shows "\<not> list_all ok members \<Longrightarrow> decode_members field members x = Inl E"
proof (induction members arbitrary: x)
  case Nil
  then show ?case by simp
next
  case (Cons m ms)
  obtain k v where m: "m = (k, v)" by (cases m)
  show ?case
  proof (cases "field (foldName k) v x")
    case (Inl err)
    then show ?thesis using m only [OF Inl] by simp
  next
    case (Inr x1)
    then have "ok (k, v)" using bad [of k v x] by auto
    then have "\<not> list_all ok ms" using Cons.prems m by simp
    from Cons.IH [OF this, of x1] Inr m show ?thesis by simp
  qed
qed

lemma Parameter_field_error:
  "Parameter_field k v p = Inl err \<Longrightarrow> err = json_UnmarshalTypeError"
proof -
  have e: "\<And>cur. decode_int v cur = Inl err \<Longrightarrow> err = json_UnmarshalTypeError"
    using decode_int_ok decode_int_bad by (metis Inl_Inr_False sum.inject(1))
  assume "Parameter_field k v p = Inl err"
  then show ?thesis
    by (auto simp add: Parameter_field_def split: if_splits dest!: map_sum_id_Inl dest: e)
qed

lemma Parameter_field_ok:
  "Parameter_member_ok (k, v) \<Longrightarrow> \<exists>p'. Parameter_field (foldName k) v p = Inr p'"
proof (cases "threshold_name (foldName k)")
  case False
  then show ?thesis by (simp add: Parameter_field_def threshold_name_def)
next
  case True
  assume "Parameter_member_ok (k, v)"
  with True have i: "int_ok v" by (simp add: Parameter_member_ok_def)
  show ?thesis
    by (auto simp add: Parameter_field_def intro!: map_sum_ok decode_int_ok [OF i])
qed

lemma Parameter_field_bad:
  "\<not> Parameter_member_ok (k, v) \<Longrightarrow>
   Parameter_field (foldName k) v p = Inl json_UnmarshalTypeError"
  by (auto simp add: Parameter_member_ok_def threshold_name_def Parameter_field_def
        decode_int_bad split: if_splits)

lemma decode_Parameter_ok: "Parameter_ok v \<Longrightarrow> \<exists>p'. decode_Parameter v p = Inr p'"
proof (cases v)
  case (JObject ms)
  assume "Parameter_ok v"
  with JObject have "list_all Parameter_member_ok ms" by simp
  from decode_members_ok [of Parameter_member_ok Parameter_field, OF Parameter_field_ok this]
  show ?thesis using JObject by simp
qed auto

lemma decode_Parameter_bad:
  "\<not> Parameter_ok v \<Longrightarrow> decode_Parameter v p = Inl json_UnmarshalTypeError"
proof (cases v)
  case (JObject ms)
  assume "\<not> Parameter_ok v"
  with JObject have n: "\<not> list_all Parameter_member_ok ms" by simp
  from decode_members_bad [of Parameter_member_ok Parameter_field json_UnmarshalTypeError,
         OF Parameter_field_bad Parameter_field_error n]
  show ?thesis using JObject by simp
qed auto

lemma decode_Parameter_error:
  "decode_Parameter v p = Inl err \<Longrightarrow> err = json_UnmarshalTypeError"
  using decode_Parameter_ok [of v p] decode_Parameter_bad [of v p] by (cases "Parameter_ok v") auto

lemma decode_string_error:
  "decode_string v cur = Inl err \<Longrightarrow> err = json_UnmarshalTypeError"
  using decode_string_ok [of v cur] decode_string_bad [of v cur] by (cases "string_ok v") auto

lemma raw_field_error:
  "raw_field k v r = Inl err \<Longrightarrow> err = json_UnmarshalTypeError"
  by (auto simp add: raw_field_def split: if_splits
           dest!: map_sum_id_Inl dest: decode_string_error decode_Parameter_error)

lemma raw_field_ok:
  "member_ok (k, v) \<Longrightarrow> \<exists>r'. raw_field (foldName k) v r = Inr r'"
  by (auto simp add: member_ok_def raw_field_def split: if_splits
        intro!: map_sum_ok decode_string_ok decode_Parameter_ok)

lemma raw_field_bad:
  "\<not> member_ok (k, v) \<Longrightarrow> raw_field (foldName k) v r = Inl json_UnmarshalTypeError"
  by (auto simp add: member_ok_def raw_field_def decode_string_bad decode_Parameter_bad
        split: if_splits)

lemma json_Unmarshal_ok: "shape_ok b \<Longrightarrow> \<exists>r'. json_Unmarshal b r = Inr r'"
proof (cases b)
  case InvalidJSON
  assume "shape_ok b" with InvalidJSON show ?thesis by simp
next
  case (ValidJSON v)
  assume ok: "shape_ok b"
  show ?thesis
  proof (cases v)
    case (JObject ms)
    with ok ValidJSON have "list_all member_ok ms" by simp
    from decode_members_ok [of member_ok raw_field, OF raw_field_ok this]
    show ?thesis using JObject ValidJSON by simp
  qed (use ok ValidJSON in auto)
qed

lemma json_Unmarshal_bad:
  "\<not> shape_ok (ValidJSON v) \<Longrightarrow> json_Unmarshal (ValidJSON v) r = Inl json_UnmarshalTypeError"
proof (cases v)
  case (JObject ms)
  assume "\<not> shape_ok (ValidJSON v)"
  with JObject have n: "\<not> list_all member_ok ms" by simp
  from decode_members_bad [of member_ok raw_field json_UnmarshalTypeError,
         OF raw_field_bad raw_field_error n]
  show ?thesis using JObject by simp
qed auto

lemma decode_members_unknown:
  "list_all (\<lambda>(k, v). \<not> known_key k) members \<Longrightarrow> decode_members raw_field members r = Inr r"
  by (induction members) (auto simp add: known_key_def raw_field_def)

lemma Sensor_all_fields:
  "(s::Sensor)\<lparr>Name := a, MacAddress := b, MaxSoilMoist := c, MinSoilMoist := d,
      MaxSoilEc := e, MinSoilEc := f, MaxLightLux := g, MinLightLux := h\<rparr>
   = \<lparr>Name = a, MacAddress = b, MaxSoilMoist = c, MinSoilMoist = d,
      MaxSoilEc = e, MinSoilEc = f, MaxLightLux = g, MinLightLux = h\<rparr>"
  by (cases s) simp

lemma UnmarshalJSON_bad:
  "\<not> shape_ok (ValidJSON v) \<Longrightarrow>
   Sensor_UnmarshalJSON s (ValidJSON v) = (s, Some json_UnmarshalTypeError)"
  by (simp add: Sensor_UnmarshalJSON_def json_Unmarshal_bad)

lemma UnmarshalJSON_ok: "shape_ok b \<Longrightarrow> snd (Sensor_UnmarshalJSON s b) = None"
  using json_Unmarshal_ok [of b raw_zero] by (auto simp add: Sensor_UnmarshalJSON_def)

lemma bad_member_shape:
  "m \<in> set members \<Longrightarrow> \<not> member_ok m \<Longrightarrow> \<not> shape_ok (ValidJSON (JObject members))"
  by (auto simp add: list_all_iff)


lemma not_int_ok:
  "x \<noteq> JNull \<Longrightarrow> \<forall>n. x = JInteger n \<longrightarrow> n < - (2 ^ 63) \<or> 2 ^ 63 \<le> n \<Longrightarrow> \<not> int_ok x"
  by (cases x) auto

lemma not_string_ok: "w \<noteq> JNull \<Longrightarrow> \<forall>t. w \<noteq> JString t \<Longrightarrow> \<not> string_ok w"
  by (cases w) auto

lemma not_Parameter_ok: "w \<noteq> JNull \<Longrightarrow> \<forall>ps. w \<noteq> JObject ps \<Longrightarrow> \<not> Parameter_ok w"
  by (cases w) auto

text \<open>
  Claim C9, as the code has it. \<^verbatim>\<open>UnmarshalJSON\<close> fails, leaving the receiver as it
  was,
  \<^item> on bytes that are not JSON, with a syntax error;
  \<^item> on a value that is neither an object nor \<^verbatim>\<open>null\<close>;
  \<^item> on an object in which a \<^verbatim>\<open>name\<close> or \<^verbatim>\<open>sensor\<close> member holds something other than
    a string or \<^verbatim>\<open>null\<close>;
  \<^item> on an object in which a \<^verbatim>\<open>parameter\<close> member holds something other than an object
    or \<^verbatim>\<open>null\<close>;
  \<^item> on an object in which a threshold of the \<^verbatim>\<open>parameter\<close> object holds something
    other than \<^verbatim>\<open>null\<close> or an integer literal within 64 bits;
  \<^item> in short, on every JSON value that is not \<open>shape_ok\<close>.

  On all other bytes, those that are \<open>shape_ok\<close>, it returns \<^verbatim>\<open>nil\<close>. In particular an
  object whose members all have keys that select no field is not a failure: the members
  are ignored and the descriptor is the zero one. When \<^verbatim>\<open>UnmarshalJSON\<close> fails on the
  bytes of a record file, the loop of \<^verbatim>\<open>readSensorsFromDir\<close> logs the error and leaves
  the sensors as they were.
\<close>

theorem Sensor_UnmarshalJSON_failures:
  "Sensor_UnmarshalJSON s InvalidJSON = (s, Some json_SyntaxError)
   \<and> (v1 \<noteq> JNull \<and> (\<forall>ms. v1 \<noteq> JObject ms) \<longrightarrow>
        Sensor_UnmarshalJSON s (ValidJSON v1) = (s, Some json_UnmarshalTypeError))
   \<and> ((key2, w2) \<in> set members2 \<and> (foldName key2 = ''NAME'' \<or> foldName key2 = ''SENSOR'')
        \<and> w2 \<noteq> JNull \<and> (\<forall>t. w2 \<noteq> JString t) \<longrightarrow>
        Sensor_UnmarshalJSON s (ValidJSON (JObject members2))
          = (s, Some json_UnmarshalTypeError))
   \<and> ((key3, w3) \<in> set members3 \<and> foldName key3 = ''PARAMETER''
        \<and> w3 \<noteq> JNull \<and> (\<forall>ps. w3 \<noteq> JObject ps) \<longrightarrow>
        Sensor_UnmarshalJSON s (ValidJSON (JObject members3))
          = (s, Some json_UnmarshalTypeError))
   \<and> ((key4, JObject ps4) \<in> set members4 \<and> foldName key4 = ''PARAMETER''
        \<and> (k4, x4) \<in> set ps4 \<and> threshold_name (foldName k4)
        \<and> x4 \<noteq> JNull \<and> (\<forall>n. x4 = JInteger n \<longrightarrow> n < - (2 ^ 63) \<or> 2 ^ 63 \<le> n) \<longrightarrow>
        Sensor_UnmarshalJSON s (ValidJSON (JObject members4))
          = (s, Some json_UnmarshalTypeError))
   \<and> (\<not> shape_ok (ValidJSON v5) \<longrightarrow>
        Sensor_UnmarshalJSON s (ValidJSON v5) = (s, Some json_UnmarshalTypeError))
   \<and> (shape_ok b6 \<longrightarrow> snd (Sensor_UnmarshalJSON s b6) = None)
   \<and> (list_all (\<lambda>(k, v). \<not> known_key k) others \<longrightarrow>
        Sensor_UnmarshalJSON s (ValidJSON (JObject others)) = (Sensor_zero, None))
   \<and> (record_file x \<and> os_ReadFile e (filepath_Join d (DirEntry_Name x)) = Inr b
        \<and> Sensor_UnmarshalJSON Sensor_zero b = (s', Some err) \<longrightarrow>
        readSensorsFromDir_entry e d (lg, ss) x
          = (lg @ [Printf_Entry x, Printf_opening (DirEntry_Name x),
                   Printf_Error_unmarshalling_JSON (filepath_Join d (DirEntry_Name x)) err], ss))"
proof (intro conjI impI)
  show "Sensor_UnmarshalJSON s InvalidJSON = (s, Some json_SyntaxError)"
    by (simp add: Sensor_UnmarshalJSON_def)
next
  assume "v1 \<noteq> JNull \<and> (\<forall>ms. v1 \<noteq> JObject ms)"
  then show "Sensor_UnmarshalJSON s (ValidJSON v1) = (s, Some json_UnmarshalTypeError)"
    by (cases v1) (simp_all add: Sensor_UnmarshalJSON_def)
next
  assume a: "(key2, w2) \<in> set members2 \<and> (foldName key2 = ''NAME'' \<or> foldName key2 = ''SENSOR'')
        \<and> w2 \<noteq> JNull \<and> (\<forall>t. w2 \<noteq> JString t)"
  then have "\<not> string_ok w2" using not_string_ok by blast
  with a have "\<not> member_ok (key2, w2)" by (auto simp add: member_ok_def)
  with a have "\<not> shape_ok (ValidJSON (JObject members2))" using bad_member_shape by blast
  then show "Sensor_UnmarshalJSON s (ValidJSON (JObject members2))
          = (s, Some json_UnmarshalTypeError)"
    by (rule UnmarshalJSON_bad)
next
  assume a: "(key3, w3) \<in> set members3 \<and> foldName key3 = ''PARAMETER''
        \<and> w3 \<noteq> JNull \<and> (\<forall>ps. w3 \<noteq> JObject ps)"
  then have "\<not> Parameter_ok w3" using not_Parameter_ok by blast
  with a have "\<not> member_ok (key3, w3)" by (auto simp add: member_ok_def)
  with a have "\<not> shape_ok (ValidJSON (JObject members3))" using bad_member_shape by blast
  then show "Sensor_UnmarshalJSON s (ValidJSON (JObject members3))
          = (s, Some json_UnmarshalTypeError)"
    by (rule UnmarshalJSON_bad)
next
  assume a: "(key4, JObject ps4) \<in> set members4 \<and> foldName key4 = ''PARAMETER''
        \<and> (k4, x4) \<in> set ps4 \<and> threshold_name (foldName k4)
        \<and> x4 \<noteq> JNull \<and> (\<forall>n. x4 = JInteger n \<longrightarrow> n < - (2 ^ 63) \<or> 2 ^ 63 \<le> n)"
  then have "\<not> int_ok x4" using not_int_ok by blast
  with a have "\<not> Parameter_member_ok (k4, x4)" by (simp add: Parameter_member_ok_def)
  with a have "\<not> Parameter_ok (JObject ps4)" by (auto simp add: list_all_iff)
  with a have "\<not> member_ok (key4, JObject ps4)" by (auto simp add: member_ok_def)
  with a have "\<not> shape_ok (ValidJSON (JObject members4))" using bad_member_shape by blast
  then show "Sensor_UnmarshalJSON s (ValidJSON (JObject members4))
          = (s, Some json_UnmarshalTypeError)"
    by (rule UnmarshalJSON_bad)
next
  assume "\<not> shape_ok (ValidJSON v5)"
  then show "Sensor_UnmarshalJSON s (ValidJSON v5) = (s, Some json_UnmarshalTypeError)"
    by (rule UnmarshalJSON_bad)
next
  assume "shape_ok b6"
  then show "snd (Sensor_UnmarshalJSON s b6) = None" by (rule UnmarshalJSON_ok)
next
  assume "list_all (\<lambda>(k, v). \<not> known_key k) others"
  then have "decode_members raw_field others raw_zero = Inr raw_zero"
    by (rule decode_members_unknown)
  then show "Sensor_UnmarshalJSON s (ValidJSON (JObject others)) = (Sensor_zero, None)"
    by (simp add: Sensor_UnmarshalJSON_def raw_zero_def Parameter_zero_def Sensor_zero_def
          Sensor_all_fields)
next
  assume "record_file x \<and> os_ReadFile e (filepath_Join d (DirEntry_Name x)) = Inr b
        \<and> Sensor_UnmarshalJSON Sensor_zero b = (s', Some err)"
  then show "readSensorsFromDir_entry e d (lg, ss) x
          = (lg @ [Printf_Entry x, Printf_opening (DirEntry_Name x),
                   Printf_Error_unmarshalling_JSON (filepath_Join d (DirEntry_Name x)) err], ss)"
    by (simp add: readSensorsFromDir_entry_def record_file_def)
qed

theorem Sensor_UnmarshalJSON_failures_witness:
  "Sensor_UnmarshalJSON kitchen (ValidJSON (JArray [JInteger 1]))
     = (kitchen, Some json_UnmarshalTypeError)
   \<and> Sensor_UnmarshalJSON kitchen
       (ValidJSON (JObject [(''name'', JString ''a''), (''Sensor'', JInteger 5)]))
     = (kitchen, Some json_UnmarshalTypeError)
   \<and> Sensor_UnmarshalJSON kitchen (ValidJSON (JObject [(''parameter'', JString ''x'')]))
     = (kitchen, Some json_UnmarshalTypeError)
   \<and> Sensor_UnmarshalJSON kitchen
       (ValidJSON (JObject [(''sensor'', JString ''AA''),
                            (''parameter'', JObject [(''max_soil_moist'', JString ''60'')])]))
     = (kitchen, Some json_UnmarshalTypeError)
   \<and> Sensor_UnmarshalJSON kitchen
       (ValidJSON (JObject [(''parameter'',
                             JObject [(''min_light_lux'', JInteger 9223372036854775808)])]))
     = (kitchen, Some json_UnmarshalTypeError)
   \<and> snd (Sensor_UnmarshalJSON kitchen
       (ValidJSON (JObject [(''sensor'', JString ''AA''),
                            (''parameter'', JObject [(''max_soil_moist'', JInteger 60)])])))
     = None
   \<and> Sensor_UnmarshalJSON kitchen (ValidJSON (JObject [(''foo'', JInteger 1)]))
     = (Sensor_zero, None)
   \<and> readSensorsFromDir_entry env_example ''internal/config/sensorData'' ([], [kitchen])
       (DirEntry ''array.json'' False)
     = ([Printf_Entry (DirEntry ''array.json'' False), Printf_opening ''array.json'',
         Printf_Error_unmarshalling_JSON ''internal/config/sensorData/array.json''
           json_UnmarshalTypeError], [kitchen])"
proof -
  have f2: "foldName ''Sensor'' = ''SENSOR''" by code_simp
  have f3: "foldName ''parameter'' = ''PARAMETER''" by code_simp
  have f4: "threshold_name (foldName ''max_soil_moist'')" by code_simp
  have n5: "\<not> shape_ok (ValidJSON (JObject [(''parameter'',
                             JObject [(''min_light_lux'', JInteger 9223372036854775808)])]))"
    by code_simp
  have o6: "shape_ok (ValidJSON (JObject [(''sensor'', JString ''AA''),
                            (''parameter'', JObject [(''max_soil_moist'', JInteger 60)])]))"
    by code_simp
  have u: "list_all (\<lambda>(k, v). \<not> known_key k) [(''foo'', JInteger 1)]" by code_simp
  have r: "record_file (DirEntry ''array.json'' False)" by code_simp
  have b: "os_ReadFile env_example
             (filepath_Join ''internal/config/sensorData'' (DirEntry_Name (DirEntry ''array.json'' False)))
           = Inr (ValidJSON (JArray [JInteger 1]))"
    by code_simp
  have j: "filepath_Join ''internal/config/sensorData'' ''array.json''
             = ''internal/config/sensorData/array.json''"
    by (simp add: filepath_Join_def)
  have a: "Sensor_UnmarshalJSON Sensor_zero (ValidJSON (JArray [JInteger 1]))
             = (Sensor_zero, Some json_UnmarshalTypeError)"
    by (simp add: Sensor_UnmarshalJSON_def)
  show ?thesis
    using Sensor_UnmarshalJSON_failures [where s = kitchen and ?v1.0 = "JArray [JInteger 1]"
                and ?key2.0 = "''Sensor''" and ?w2.0 = "JInteger 5"
                and ?members2.0 = "[(''name'', JString ''a''), (''Sensor'', JInteger 5)]"
                and ?key3.0 = "''parameter''" and ?w3.0 = "JString ''x''"
                and ?members3.0 = "[(''parameter'', JString ''x'')]"
                and ?key4.0 = "''parameter''" and ?ps4.0 = "[(''max_soil_moist'', JString ''60'')]"
                and ?k4.0 = "''max_soil_moist''" and ?x4.0 = "JString ''60''"
                and ?members4.0 = "[(''sensor'', JString ''AA''),
                            (''parameter'', JObject [(''max_soil_moist'', JString ''60'')])]"
                and ?v5.0 = "JObject [(''parameter'',
                             JObject [(''min_light_lux'', JInteger 9223372036854775808)])]"
                and ?b6.0 = "ValidJSON (JObject [(''sensor'', JString ''AA''),
                            (''parameter'', JObject [(''max_soil_moist'', JInteger 60)])])"
                and others = "[(''foo'', JInteger 1)]"
                and x = "DirEntry ''array.json'' False" and e = env_example
                and d = "''internal/config/sensorData''" and b = "ValidJSON (JArray [JInteger 1])"
                and s' = Sensor_zero and err = json_UnmarshalTypeError and lg = "[]"
                and ss = "[kitchen]"]
          f2 f3 f4 n5 o6 u r b j a
    by simp
qed

text \<open>
  The claim as it was stated fails on \<^verbatim>\<open>{"foo":1}\<close>, valid JSON of a shape the
  record format does not know: it decodes without an error, and \<^verbatim>\<open>other.json\<close>, which
  holds it, is not skipped.
\<close>

theorem Sensor_UnmarshalJSON_failures_counterexample:
  "Sensor_UnmarshalJSON Sensor_zero (ValidJSON (JObject [(''foo'', JInteger 1)]))
     = (Sensor_zero, None)
   \<and> decode_file env_example ''internal/config/sensorData'' (DirEntry ''other.json'' False)
     = Some Sensor_zero"
  by code_simp

subsection \<open>The checks\<close>






text \<open>
  Claim C6. With no sensor and no adapter the error is the one for no sensors, and the
  error for the adapter is only returned when there is a sensor. A refresh duration
  below one minute adds the warning to the log once there is a sensor and an adapter,
  and when the enforced checks hold the result is still \<^verbatim>\<open>nil\<close>. The outcome of the
  checks does not depend on the refresh duration when the stale duration is twice it.
\<close>

theorem Parse_checks_order:
  "(Sensors c = [] \<and> Device c = [] \<longrightarrow>
      Parse_checks lg c = (lg, c, Some (errors_New ''need to provide at least one sensor'')))
   \<and> (snd (snd (Parse_checks lg c)) = Some (errors_New ''need to provide a bluetooth device'') \<longrightarrow>
      Sensors c \<noteq> [])
   \<and> (Sensors c \<noteq> [] \<and> Device c \<noteq> [] \<and> RefreshDuration c <s time_Minute \<longrightarrow>
      fst (Parse_checks lg c) = lg @ [Warnf_Refresh_durations (RefreshDuration c)])
   \<and> (Sensors c \<noteq> [] \<and> Device c \<noteq> [] \<and> RefreshDuration c <s time_Minute
        \<and> \<not> StaleDuration c <s 2 * RefreshDuration c
        \<and> \<not> MinDuration (Retry c) <s 30 * time_Second
        \<and> \<not> MaxDuration (Retry c) <s MinDuration (Retry c)
        \<and> \<not> float64_less (Factor (Retry c)) (Finite 1) \<longrightarrow>
      Parse_checks lg c = (lg @ [Warnf_Refresh_durations (RefreshDuration c)], c, None))
   \<and> snd (snd (Parse_checks lg (c\<lparr>RefreshDuration := r, StaleDuration := 2 * r\<rparr>)))
       = snd (snd (Parse_checks lg (c\<lparr>RefreshDuration := 2 * time_Minute,
                                        StaleDuration := 4 * time_Minute\<rparr>)))"
  by (simp add: Parse_checks_def Let_def)

theorem Parse_checks_order_witness:
  "Parse_checks [] (Config_default\<lparr>Device := []\<rparr>)
     = ([], Config_default\<lparr>Device := []\<rparr>,
        Some (errors_New ''need to provide at least one sensor''))
   \<and> Parse_checks [] (Config_default\<lparr>Sensors := [kitchen], RefreshDuration := 30 * time_Second\<rparr>)
     = ([Warnf_Refresh_durations (30 * time_Second)],
        Config_default\<lparr>Sensors := [kitchen], RefreshDuration := 30 * time_Second\<rparr>, None)"
proof -
  have a: "Sensors (Config_default\<lparr>Device := []\<rparr>) = []" by (simp add: Config_default_def)
  have b: "Sensors (Config_default\<lparr>Sensors := [kitchen], RefreshDuration := 30 * time_Second\<rparr>) \<noteq> []
    \<and> Device (Config_default\<lparr>Sensors := [kitchen], RefreshDuration := 30 * time_Second\<rparr>) \<noteq> []
    \<and> RefreshDuration (Config_default\<lparr>Sensors := [kitchen], RefreshDuration := 30 * time_Second\<rparr>)
         <s time_Minute
    \<and> \<not> StaleDuration (Config_default\<lparr>Sensors := [kitchen], RefreshDuration := 30 * time_Second\<rparr>)
         <s 2 * RefreshDuration (Config_default\<lparr>Sensors := [kitchen], RefreshDuration := 30 * time_Second\<rparr>)
    \<and> \<not> MinDuration (Retry (Config_default\<lparr>Sensors := [kitchen], RefreshDuration := 30 * time_Second\<rparr>))
         <s 30 * time_Second
    \<and> \<not> MaxDuration (Retry (Config_default\<lparr>Sensors := [kitchen], RefreshDuration := 30 * time_Second\<rparr>))
         <s MinDuration (Retry (Config_default\<lparr>Sensors := [kitchen], RefreshDuration := 30 * time_Second\<rparr>))
    \<and> \<not> float64_less (Factor (Retry (Config_default\<lparr>Sensors := [kitchen],
             RefreshDuration := 30 * time_Second\<rparr>))) (Finite 1)"
    by (simp add: Config_default_def time_Minute_def time_Second_def)
  show ?thesis
    using Parse_checks_order [where c = "Config_default\<lparr>Device := []\<rparr>" and lg = "[]" and r = 0]
          Parse_checks_order [where c = "Config_default\<lparr>Sensors := [kitchen], RefreshDuration := 30 * time_Second\<rparr>"
                and lg = "[]" and r = 0]
          a b
    by simp
qed

text \<open>
  Claim C8. A retry minimum of 30 seconds never fails its check, and one of 29.999
  seconds fails it once the earlier checks have passed. A retry maximum equal to the
  minimum never fails its check, and a smaller one fails it. A retry factor of 1 never
  fails its check, and any factor below 1 fails it. With all three at their boundary
  and the earlier checks passed, the result is \<^verbatim>\<open>nil\<close>.
\<close>

theorem Parse_checks_retry_boundaries:
  "(MinDuration (Retry c) = 30 * time_Second \<longrightarrow>
      snd (snd (Parse_checks lg c)) \<noteq> Some (Errorf_retry_time d))
   \<and> (Sensors c \<noteq> [] \<and> Device c \<noteq> [] \<and> \<not> StaleDuration c <s 2 * RefreshDuration c
        \<and> MinDuration (Retry c) = 29 * time_Second + 999 * time_Millisecond \<longrightarrow>
      snd (snd (Parse_checks lg c)) = Some (Errorf_retry_time (MinDuration (Retry c))))
   \<and> (MaxDuration (Retry c) = MinDuration (Retry c) \<longrightarrow>
      snd (snd (Parse_checks lg c)) \<noteq> Some (Errorf_maximum_retry_time lo hi))
   \<and> (Sensors c \<noteq> [] \<and> Device c \<noteq> [] \<and> \<not> StaleDuration c <s 2 * RefreshDuration c
        \<and> \<not> MinDuration (Retry c) <s 30 * time_Second
        \<and> MaxDuration (Retry c) <s MinDuration (Retry c) \<longrightarrow>
      snd (snd (Parse_checks lg c))
        = Some (Errorf_maximum_retry_time (MinDuration (Retry c)) (MaxDuration (Retry c))))
   \<and> (Factor (Retry c) = Finite 1 \<longrightarrow>
      snd (snd (Parse_checks lg c)) \<noteq> Some (Errorf_retry_factor f))
   \<and> (Sensors c \<noteq> [] \<and> Device c \<noteq> [] \<and> \<not> StaleDuration c <s 2 * RefreshDuration c
        \<and> \<not> MinDuration (Retry c) <s 30 * time_Second
        \<and> \<not> MaxDuration (Retry c) <s MinDuration (Retry c)
        \<and> float64_less (Factor (Retry c)) (Finite 1) \<longrightarrow>
      snd (snd (Parse_checks lg c)) = Some (Errorf_retry_factor (Factor (Retry c))))
   \<and> (Sensors c \<noteq> [] \<and> Device c \<noteq> [] \<and> \<not> StaleDuration c <s 2 * RefreshDuration c
        \<and> MinDuration (Retry c) = 30 * time_Second
        \<and> MaxDuration (Retry c) = MinDuration (Retry c)
        \<and> Factor (Retry c) = Finite 1 \<longrightarrow>
      snd (snd (Parse_checks lg c)) = None)"
  by (auto simp add: Parse_checks_def Let_def time_Second_def time_Millisecond_def)

theorem Parse_checks_retry_boundaries_witness:
  "snd (snd (Parse_checks [] (Config_default\<lparr>Sensors := [kitchen]\<rparr>)))
     \<noteq> Some (Errorf_retry_time (30 * time_Second))
   \<and> snd (snd (Parse_checks [] (Config_default\<lparr>Sensors := [kitchen],
         Retry := \<lparr>MinDuration = 29 * time_Second + 999 * time_Millisecond,
                    MaxDuration = 30 * time_Minute, Factor = Finite 2\<rparr>\<rparr>)))
     = Some (Errorf_retry_time (29 * time_Second + 999 * time_Millisecond))
   \<and> snd (snd (Parse_checks [] (Config_default\<lparr>Sensors := [kitchen],
         Retry := \<lparr>MinDuration = 30 * time_Second, MaxDuration = 30 * time_Second - 1,
                    Factor = Finite 2\<rparr>\<rparr>)))
     = Some (Errorf_maximum_retry_time (30 * time_Second) (30 * time_Second - 1))
   \<and> snd (snd (Parse_checks [] (Config_default\<lparr>Sensors := [kitchen],
         Retry := \<lparr>MinDuration = 30 * time_Second, MaxDuration = 30 * time_Minute,
                    Factor = Finite (999999 / 1000000)\<rparr>\<rparr>)))
     = Some (Errorf_retry_factor (Finite (999999 / 1000000)))
   \<and> snd (snd (Parse_checks [] (Config_default\<lparr>Sensors := [kitchen],
         Retry := \<lparr>MinDuration = 30 * time_Second, MaxDuration = 30 * time_Second,
                    Factor = Finite 1\<rparr>\<rparr>)))
     = None"
proof -
  have d: "Device Config_default \<noteq> [] \<and> \<not> StaleDuration Config_default <s 2 * RefreshDuration Config_default
             \<and> MinDuration (Retry Config_default) = 30 * time_Second"
    by (simp add: Config_default_def time_Minute_def time_Second_def)
  have m: "(30 * time_Second - 1 :: Duration) <s 30 * time_Second
             \<and> \<not> (30 * time_Second :: Duration) <s 30 * time_Second
             \<and> \<not> (30 * time_Minute :: Duration) <s 30 * time_Second"
    by (simp add: time_Second_def time_Minute_def)
  have f: "float64_less (Finite (999999 / 1000000)) (Finite 1)" by simp
  show ?thesis
    using Parse_checks_retry_boundaries [where c = "Config_default\<lparr>Sensors := [kitchen]\<rparr>" and lg = "[]"
                and d = "30 * time_Second" and lo = 0 and hi = 0 and f = NaN]
          Parse_checks_retry_boundaries [where c = "Config_default\<lparr>Sensors := [kitchen],
                 Retry := \<lparr>MinDuration = 29 * time_Second + 999 * time_Millisecond,
                            MaxDuration = 30 * time_Minute, Factor = Finite 2\<rparr>\<rparr>" and lg = "[]"
                and d = 0 and lo = 0 and hi = 0 and f = NaN]
          Parse_checks_retry_boundaries [where c = "Config_default\<lparr>Sensors := [kitchen],
                 Retry := \<lparr>MinDuration = 30 * time_Second, MaxDuration = 30 * time_Second - 1,
                            Factor = Finite 2\<rparr>\<rparr>" and lg = "[]"
                and d = 0 and lo = 0 and hi = 0 and f = NaN]
          Parse_checks_retry_boundaries [where c = "Config_default\<lparr>Sensors := [kitchen],
                 Retry := \<lparr>MinDuration = 30 * time_Second, MaxDuration = 30 * time_Minute,
                            Factor = Finite (999999 / 1000000)\<rparr>\<rparr>" and lg = "[]"
                and d = 0 and lo = 0 and hi = 0 and f = NaN]
          Parse_checks_retry_boundaries [where c = "Config_default\<lparr>Sensors := [kitchen],
                 Retry := \<lparr>MinDuration = 30 * time_Second, MaxDuration = 30 * time_Second,
                            Factor = Finite 1\<rparr>\<rparr>" and lg = "[]"
                and d = 0 and lo = 0 and hi = 0 and f = NaN]
          d m f
    by simp
qed

subsection \<open>Parse\<close>

lemma pflag_Parse_keeps:
  assumes "\<And>name v text c c'. map_of fs name = Some v \<Longrightarrow> v text c = Inr c' \<Longrightarrow> f c' = f c"
  shows "pflag_Parse fs args c = Inr c' \<Longrightarrow> f c' = f c"
proof (induction args arbitrary: c)
  case Nil
  then show ?case by simp
next
  case (Cons a as)
  obtain nm tx where a: "a = (nm, tx)" by (cases a)
  from Cons.prems a obtain v c1 where v: "map_of fs nm = Some v" and s: "v tx c = Inr c1"
    and r: "pflag_Parse fs as c1 = Inr c'"
    by (auto split: option.splits sum.splits)
  have "f c1 = f c" using assms [OF v s] .
  moreover have "f c' = f c1" using Cons.IH [OF r] .
  ultimately show ?case by simp
qed

lemma directory_flags_keep_Sensors:
  "map_of (directory_flags e) name = Some v \<Longrightarrow> v text c = Inr c' \<Longrightarrow> Sensors c' = Sensors c"
  by (auto simp add: directory_flags_def LogLevel_Value_def split: if_splits sum.splits)

lemma Parse_flags_directory:
  "Parse_flags e args lg ([(''sensordir'', \<lambda>text c. Inr (c\<lparr>SensorDir := text\<rparr>))], c)
     = (case pflag_Parse (directory_flags e) args c of
          Inl err \<Rightarrow> (lg, Flag_exit err)
        | Inr result \<Rightarrow>
            (case Parse_checks lg result of (lg', c', err) \<Rightarrow> (lg', Return c' err)))"
  by (simp add: Parse_flags_def directory_flags_def pflag_VarP_def pflag_StringVarP_def
        pflag_DurationVarP_def pflag_Float64Var_def Let_def)

lemma Parse_directory:
  "Parse e args lg
     = (case readSensorsFromDir e (SensorDir Config_default)
               (lg @ [Printf_sensordir (SensorDir Config_default),
                      Infof_sensor_directory (SensorDir Config_default)]) of
          (lg3, Inl err) \<Rightarrow> (lg3 @ [Fatalf_Error_reading_sensors err], Fatal_exit)
        | (lg3, Inr sensors) \<Rightarrow>
            (case pflag_Parse (directory_flags e) args (Config_default\<lparr>Sensors := sensors\<rparr>) of
               Inl err \<Rightarrow> (lg3, Flag_exit err)
             | Inr result \<Rightarrow>
                 (case Parse_checks lg3 result of (lg', c', err) \<Rightarrow> (lg', Return c' err))))"
proof -
  have d: "SensorDir Config_default \<noteq> []" by (simp add: Config_default_def)
  have u: "Config_default\<lparr>SensorDir := SensorDir Config_default\<rparr> = Config_default" by simp
  show ?thesis
    unfolding Parse_def Let_def pflag_StringVarP_def
    using d by (simp add: Parse_flags_directory split: prod.splits sum.splits)
qed

lemma Parse_checks_result: "fst (snd (Parse_checks lg c)) = c"
  by (simp add: Parse_checks_def Let_def)

text \<open>
  Claim C2, as the code has it. When \<^verbatim>\<open>Parse\<close> returns an error, the \<^verbatim>\<open>Config\<close>
  beside it is \<^verbatim>\<open>result\<close> as it was assembled: its sensors are those read from the
  directory, it is what the flags of the command line made of the defaults, and it is the
  value the failed checks were run on. Unless the error is the one for no sensors, it is
  not the zero value, since it holds a sensor.
\<close>

theorem Parse_error_returns_result:
  "(Parse e args lg = (lg', Return c (Some err)) \<longrightarrow>
      (\<exists>lg3. readSensorsFromDir e (SensorDir Config_default)
                (lg @ [Printf_sensordir (SensorDir Config_default),
                       Infof_sensor_directory (SensorDir Config_default)])
              = (lg3, Inr (Sensors c))
         \<and> pflag_Parse (directory_flags e) args (Config_default\<lparr>Sensors := Sensors c\<rparr>) = Inr c
         \<and> Parse_checks lg3 c = (lg', c, Some err)))
   \<and> (Parse e args lg = (lg', Return c (Some err))
        \<and> err \<noteq> errors_New ''need to provide at least one sensor'' \<longrightarrow> c \<noteq> Config_zero)"
proof -
  have main: "\<exists>lg3. readSensorsFromDir e (SensorDir Config_default)
                (lg @ [Printf_sensordir (SensorDir Config_default),
                       Infof_sensor_directory (SensorDir Config_default)])
              = (lg3, Inr (Sensors c))
         \<and> pflag_Parse (directory_flags e) args (Config_default\<lparr>Sensors := Sensors c\<rparr>) = Inr c
         \<and> Parse_checks lg3 c = (lg', c, Some err)"
    if p: "Parse e args lg = (lg', Return c (Some err))"
  proof -
    obtain lg3 r where rd: "readSensorsFromDir e (SensorDir Config_default)
                (lg @ [Printf_sensordir (SensorDir Config_default),
                       Infof_sensor_directory (SensorDir Config_default)]) = (lg3, r)"
      by (cases "readSensorsFromDir e (SensorDir Config_default)
                (lg @ [Printf_sensordir (SensorDir Config_default),
                       Infof_sensor_directory (SensorDir Config_default)])")
    from p rd obtain sensors where r: "r = Inr sensors"
      by (cases r) (auto simp add: Parse_directory)
    from p rd r obtain result where
      fl: "pflag_Parse (directory_flags e) args (Config_default\<lparr>Sensors := sensors\<rparr>) = Inr result"
      by (cases "pflag_Parse (directory_flags e) args (Config_default\<lparr>Sensors := sensors\<rparr>)")
         (auto simp add: Parse_directory)
    from p rd r fl have ch: "Parse_checks lg3 result = (lg', c, Some err)"
      by (auto simp add: Parse_directory split: prod.splits)
    have "c = result" using Parse_checks_result [of lg3 result] ch by simp
    moreover have "Sensors result = sensors"
      using pflag_Parse_keeps [of "directory_flags e" Sensors args
              "Config_default\<lparr>Sensors := sensors\<rparr>" result]
            directory_flags_keep_Sensors fl by simp
    ultimately show ?thesis using rd r fl ch by auto
  qed
  have nz: "c \<noteq> Config_zero"
    if p: "Parse e args lg = (lg', Return c (Some err))"
      and ne: "err \<noteq> errors_New ''need to provide at least one sensor''"
  proof -
    from main [OF p] obtain lg3 where "Parse_checks lg3 c = (lg', c, Some err)" by blast
    with ne have "Sensors c \<noteq> []"
      by (auto simp add: Parse_checks_def Let_def split: if_splits)
    then show ?thesis by (auto simp add: Config_zero_def)
  qed
  show ?thesis using main nz by blast
qed

theorem Parse_error_returns_result_witness:
  "pflag_Parse (directory_flags env_example) [(''stale-duration'', ''1m'')]
       (Config_default\<lparr>Sensors := [kitchen, Sensor_zero, Sensor_zero]\<rparr>)
     = Inr (Config_default\<lparr>Sensors := [kitchen, Sensor_zero, Sensor_zero],
                             StaleDuration := time_Minute\<rparr>)
   \<and> Config_default\<lparr>Sensors := [kitchen, Sensor_zero, Sensor_zero], StaleDuration := time_Minute\<rparr>
       \<noteq> Config_zero"
proof -
  have p: "Parse env_example [(''stale-duration'', ''1m'')] []
             = (fst (Parse env_example [(''stale-duration'', ''1m'')] []),
                Return (Config_default\<lparr>Sensors := [kitchen, Sensor_zero, Sensor_zero],
                                         StaleDuration := time_Minute\<rparr>)
                  (Some (Errorf_stale_duration (4 * time_Minute))))"
    by code_simp
  have n: "Errorf_stale_duration (4 * time_Minute)
             \<noteq> errors_New ''need to provide at least one sensor''"
    by simp
  show ?thesis
    using Parse_error_returns_result
            [where e = env_example and args = "[(''stale-duration'', ''1m'')]" and lg = "[]"
               and lg' = "fst (Parse env_example [(''stale-duration'', ''1m'')] [])"
               and c = "Config_default\<lparr>Sensors := [kitchen, Sensor_zero, Sensor_zero],
                                         StaleDuration := time_Minute\<rparr>"
               and err = "Errorf_stale_duration (4 * time_Minute)"]
          p n
    by auto
qed

text \<open>
  The claim as it was stated fails on \<^verbatim>\<open>--stale-duration 1m\<close>: the staleness check
  fails and the \<^verbatim>\<open>Config\<close> returned with the error holds the sensors, the defaults
  and the stale duration of the command line.
\<close>

theorem Parse_error_returns_result_counterexample:
  "snd (Parse env_example [(''stale-duration'', ''1m'')] [])
     = Return (Config_default\<lparr>Sensors := [kitchen, Sensor_zero, Sensor_zero],
                 StaleDuration := time_Minute\<rparr>)
         (Some (Errorf_stale_duration (4 * time_Minute)))
   \<and> Config_default\<lparr>Sensors := [kitchen, Sensor_zero, Sensor_zero], StaleDuration := time_Minute\<rparr>
       \<noteq> Config_zero"
  by code_simp

text \<open>
  Claim C1. The source tests \<^verbatim>\<open>result.SensorDir\<close> before \<^verbatim>\<open>pflag.Parse()\<close> has
  read the command line, when it still holds the default, so the directory strategy is
  taken whatever the command line says. With \<^verbatim>\<open>--sensordir ""\<close> and a \<^verbatim>\<open>-s\<close> token the
  default directory is read and the run ends in the flag parser, which does not know
  \<^verbatim>\<open>sensor\<close>; with \<^verbatim>\<open>--sensordir ""\<close> alone the configuration returned has the empty
  directory path and the sensors of the default directory.
\<close>

theorem Parse_sensordir_tested_before_flags:
  "snd (Parse env_example [(''sensordir'', ''''), (''sensor'', ''AA:BB:CC:DD:EE:FF'')] [])
     = Flag_exit (pflag_unknown_flag ''sensor'')
   \<and> snd (Parse env_example [(''sensordir'', '''')] [])
     = Return (Config_default\<lparr>Sensors := [kitchen, Sensor_zero, Sensor_zero], SensorDir := []\<rparr>) None"
  by code_simp

end
